theory Spec2Isabelle
  imports Complex_Main "HOL-Library.Sublist"
begin

section \<open>Python values\<close>

text \<open>
  The agents exchange Python dictionaries whose content comes partly from the source
  itself and partly from the text the external reasoning capability returns. A parsed
  value is a \<open>json\<close>; a dictionary is an association list in insertion order.
  Python floats are read as the exact decimals their literals denote (\<open>rat\<close>). For
  the heuristic weights the float sums and the exact sums compare alike against 0.4,
  0.6 and 0.8 and render alike under \<open>.0%\<close> and \<open>.3f\<close>; they differ in one place
  only: 0.3 + 0.25 + 0.15 is 0.7000000000000001 as a float, which exceeds 0.7.
  The renderings of a number round its exact decimal value. A parsed number does not
  record whether the text wrote it as an integer or as a float: \<open>type_name\<close> calls
  a number without a fractional part \<open>int\<close>.
\<close>

datatype json =
    JNull
  | JBool bool
  | JNum rat
  | JStr string
  | JArr "json list"
  | JObj "(string \<times> json) list"

type_synonym dict = "(string \<times> json) list"

text \<open>Exceptions, each with the text \<open>str(e)\<close> gives.\<close>

datatype error =
    InvokeError string
  | TypeError string
  | ValueError string
  | AttributeError string
  | KeyError string
  | JSONDecodeError string
  | RecursionError string

definition quoted :: "string \<Rightarrow> string" where
  "quoted s = [CHR 0x27] @ s @ [CHR 0x27]"

fun str_of_error :: "error \<Rightarrow> string" where
  "str_of_error (InvokeError m) = m"
| "str_of_error (TypeError m) = m"
| "str_of_error (ValueError m) = m"
| "str_of_error (AttributeError m) = m"
| "str_of_error (KeyError k) = quoted k"
| "str_of_error (JSONDecodeError m) = m"
| "str_of_error (RecursionError m) = m"

fun type_name :: "json \<Rightarrow> string" where
  "type_name JNull = ''NoneType''"
| "type_name (JBool _) = ''bool''"
| "type_name (JNum r) = (if r = of_int \<lfloor>r\<rfloor> then ''int'' else ''float'')"
| "type_name (JStr _) = ''str''"
| "type_name (JArr _) = ''list''"
| "type_name (JObj _) = ''dict''"

text \<open>Truth value of a parsed value in a Python condition.\<close>

fun truthy :: "json \<Rightarrow> bool" where
  "truthy JNull = False"
| "truthy (JBool b) = b"
| "truthy (JNum r) = (r \<noteq> 0)"
| "truthy (JStr s) = (s \<noteq> [])"
| "truthy (JArr xs) = (xs \<noteq> [])"
| "truthy (JObj d) = (d \<noteq> [])"

subsection \<open>Dictionaries\<close>

definition dict_get :: "dict \<Rightarrow> string \<Rightarrow> json \<Rightarrow> json" where
  \<comment> \<open>\<open>d.get(k, dflt)\<close>\<close>
  "dict_get d k dflt = (case map_of d k of None \<Rightarrow> dflt | Some v \<Rightarrow> v)"

fun dict_set :: "dict \<Rightarrow> string \<Rightarrow> json \<Rightarrow> dict" where
  \<comment> \<open>\<open>d[k] = v\<close>: an existing key keeps its position\<close>
  "dict_set [] k v = [(k, v)]"
| "dict_set ((k', v') # d) k v =
     (if k' = k then (k, v) # d else (k', v') # dict_set d k v)"

definition dict_item :: "dict \<Rightarrow> string \<Rightarrow> error + json" where
  \<comment> \<open>\<open>d[k]\<close>\<close>
  "dict_item d k = (case map_of d k of None \<Rightarrow> Inl (KeyError k) | Some v \<Rightarrow> Inr v)"

definition setdefault :: "dict \<Rightarrow> string \<Rightarrow> json \<Rightarrow> dict" where
  \<comment> \<open>the dictionary after \<open>d.setdefault(k, v)\<close>\<close>
  "setdefault d k v = (case map_of d k of None \<Rightarrow> d @ [(k, v)] | Some _ \<Rightarrow> d)"

subsection \<open>Strings\<close>

fun join :: "string \<Rightarrow> string list \<Rightarrow> string" where
  \<comment> \<open>\<open>sep.join(parts)\<close>\<close>
  "join sep [] = []"
| "join sep [p] = p"
| "join sep (p # q # ps) = p @ sep @ join sep (q # ps)"

fun str_before :: "string \<Rightarrow> string \<Rightarrow> string" where
  \<comment> \<open>the text in front of the first occurrence of \<open>sep\<close>, all of it when there is none\<close>
  "str_before sep [] = []"
| "str_before sep (c # cs) =
     (if prefix sep (c # cs) then [] else c # str_before sep cs)"

fun str_after :: "string \<Rightarrow> string \<Rightarrow> string option" where
  \<comment> \<open>the text behind the first occurrence of \<open>sep\<close>\<close>
  "str_after sep [] = (if sep = [] then Some [] else None)"
| "str_after sep (c # cs) =
     (if prefix sep (c # cs) then Some (drop (length sep) (c # cs))
      else str_after sep cs)"

definition contains :: "string \<Rightarrow> string \<Rightarrow> bool" where
  \<comment> \<open>\<open>sep in s\<close>\<close>
  "contains sep s = (str_after sep s \<noteq> None)"

lemma str_after_shorter:
  "str_after sep s = Some r \<Longrightarrow> sep \<noteq> [] \<Longrightarrow> length r < length s"
  by (induction s) (auto split: if_splits)

function py_split :: "string \<Rightarrow> string \<Rightarrow> string list" where
  \<comment> \<open>\<open>s.split(sep)\<close> for a non-empty separator (Python raises on an empty one;
      the source only splits on literals)\<close>
  "py_split sep s =
     (if sep = [] then [s]
      else case str_after sep s of
             None \<Rightarrow> [s]
           | Some r \<Rightarrow> str_before sep s # py_split sep r)"
  by pat_completeness auto
termination
  by (relation "measure (\<lambda>(sep, s). length s)") (auto dest: str_after_shorter)

declare py_split.simps [simp del]

definition is_space :: "char \<Rightarrow> bool" where
  \<comment> \<open>the characters below U+0100 that \<open>str.strip()\<close> removes\<close>
  "is_space c = (c \<in> set [CHR '' '', CHR 0x09, CHR 0x0A, CHR 0x0B, CHR 0x0C, CHR 0x0D,
                           CHR 0x1C, CHR 0x1D, CHR 0x1E, CHR 0x1F, CHR 0x85, CHR 0xA0])"

definition strip :: "string \<Rightarrow> string" where
  "strip s = rev (dropWhile is_space (rev (dropWhile is_space s)))"

subsection \<open>Number formatting\<close>

definition digit :: "nat \<Rightarrow> char" where
  "digit n = ''0123456789'' ! n"

function show_nat :: "nat \<Rightarrow> string" where
  "show_nat n = (if n < 10 then [digit n] else show_nat (n div 10) @ [digit (n mod 10)])"
  by pat_completeness auto
termination
  by (relation "measure id") auto

declare show_nat.simps [simp del]

definition pad_left :: "nat \<Rightarrow> string \<Rightarrow> string" where
  \<comment> \<open>zero-fill to the given width\<close>
  "pad_left w s = replicate (w - length s) CHR ''0'' @ s"

function show_grouped :: "nat \<Rightarrow> string" where
  \<comment> \<open>decimal digits with a comma between groups of three\<close>
  "show_grouped n =
     (if n < 1000 then show_nat n
      else show_grouped (n div 1000) @ '','' @ pad_left 3 (show_nat (n mod 1000)))"
  by pat_completeness auto
termination
  by (relation "measure id") auto

declare show_grouped.simps [simp del]

definition round_half_even :: "rat \<Rightarrow> int" where
  "round_half_even x =
     (let f = \<lfloor>x\<rfloor>; d = x - of_int f
      in if d < 1/2 then f
         else if 1/2 < d then f + 1
         else if even f then f else f + 1)"

definition fmt_fixed :: "nat \<Rightarrow> bool \<Rightarrow> rat \<Rightarrow> string" where
  \<comment> \<open>\<open>format(x, ".pf")\<close>, and \<open>format(x, ",.pf")\<close> when \<open>commas\<close>\<close>
  "fmt_fixed p commas x =
     (let n = nat (round_half_even (\<bar>x\<bar> * 10 ^ p));
          ip = n div 10 ^ p;
          fp = n mod 10 ^ p
      in (if x < 0 then ''-'' else '''')
         @ (if commas then show_grouped ip else show_nat ip)
         @ (if p = 0 then '''' else ''.'' @ pad_left p (show_nat fp)))"

definition fmt_percent :: "rat \<Rightarrow> string" where
  \<comment> \<open>\<open>format(x, ".0%")\<close>\<close>
  "fmt_percent x = fmt_fixed 0 False (x * 100) @ ''%''"

definition show_int :: "int \<Rightarrow> string" where
  \<comment> \<open>\<open>str(i)\<close> of an integer\<close>
  "show_int i = (if i < 0 then ''-'' else '''') @ show_nat (nat \<bar>i\<bar>)"

fun format_num :: "(rat \<Rightarrow> string) \<Rightarrow> string \<Rightarrow> json \<Rightarrow> error + string" where
  \<comment> \<open>a float format specification applied to a parsed value: numbers and booleans
      format, a string rejects the format code, anything else has no such format\<close>
  "format_num f code (JNum r) = Inr (f r)"
| "format_num f code (JBool b) = Inr (f (if b then 1 else 0))"
| "format_num f code (JStr s) =
     Inl (ValueError (''Unknown format code '' @ quoted code @ '' for object of type ''
                      @ quoted ''str''))"
| "format_num f code v =
     Inl (TypeError (''unsupported format string passed to '' @ type_name v @ ''.__format__''))"

fun py_gt :: "json \<Rightarrow> rat \<Rightarrow> error + bool" where
  \<comment> \<open>\<open>v > c\<close> against a float constant\<close>
  "py_gt (JNum r) c = Inr (c < r)"
| "py_gt (JBool b) c = Inr (c < (if b then 1 else 0))"
| "py_gt v c =
     Inl (TypeError (quoted ''>'' @ '' not supported between instances of ''
                     @ quoted (type_name v) @ '' and '' @ quoted ''float''))"

fun py_le :: "json \<Rightarrow> rat \<Rightarrow> error + bool" where
  \<comment> \<open>\<open>v <= c\<close> against a float constant\<close>
  "py_le (JNum r) c = Inr (r \<le> c)"
| "py_le (JBool b) c = Inr ((if b then 1 else 0) \<le> c)"
| "py_le v c =
     Inl (TypeError (quoted ''<='' @ '' not supported between instances of ''
                     @ quoted (type_name v) @ '' and '' @ quoted ''float''))"

fun py_len :: "json \<Rightarrow> error + nat" where
  \<comment> \<open>\<open>len(v)\<close>\<close>
  "py_len (JArr xs) = Inr (length xs)"
| "py_len (JStr s) = Inr (length s)"
| "py_len (JObj d) = Inr (length d)"
| "py_len v = Inl (TypeError (''object of type '' @ quoted (type_name v) @ '' has no len()''))"

fun py_in :: "string \<Rightarrow> json \<Rightarrow> error + bool" where
  \<comment> \<open>\<open>k in v\<close> for a string \<open>k\<close>: list membership, substring, dictionary key\<close>
  "py_in k (JArr xs) = Inr (JStr k \<in> set xs)"
| "py_in k (JStr s) = Inr (contains k s)"
| "py_in k (JObj d) = Inr (k \<in> set (map fst d))"
| "py_in k v =
     Inl (TypeError (''argument of type '' @ quoted (type_name v) @ '' is not iterable''))"

fun is_str :: "json \<Rightarrow> bool" where
  "is_str (JStr s) = True"
| "is_str v = False"

fun str_value :: "json \<Rightarrow> string" where
  "str_value (JStr s) = s"
| "str_value v = []"

fun join_json :: "string \<Rightarrow> json \<Rightarrow> error + string" where
  \<comment> \<open>\<open>sep.join(v)\<close>: every item of the iterable has to be a string\<close>
  "join_json sep (JArr xs) =
     (if list_all is_str xs then Inr (join sep (map str_value xs))
      else (let i = length (takeWhile is_str xs)
            in Inl (TypeError (''sequence item '' @ show_nat i @ '': expected str instance, ''
                               @ type_name (xs ! i) @ '' found''))))"
| "join_json sep (JStr s) = Inr (join sep (map (\<lambda>c. [c]) s))"
| "join_json sep (JObj d) = Inr (join sep (map fst d))"
| "join_json sep v = Inl (TypeError ''can only join an iterable'')"

fun py_take :: "nat \<Rightarrow> json \<Rightarrow> error + json" where
  \<comment> \<open>the slice \<open>v[:n]\<close>\<close>
  "py_take n (JArr xs) = Inr (JArr (take n xs))"
| "py_take n (JStr s) = Inr (JStr (take n s))"
| "py_take n (JObj d) = Inl (TypeError (''unhashable type: '' @ quoted ''slice''))"
| "py_take n v = Inl (TypeError (quoted (type_name v) @ '' object is not subscriptable''))"

fun set_item :: "json \<Rightarrow> string \<Rightarrow> json \<Rightarrow> error + dict" where
  \<comment> \<open>\<open>result[k] = v\<close> on a parsed value: only a dictionary accepts it\<close>
  "set_item (JObj d) k v = Inr (dict_set d k v)"
| "set_item (JArr xs) k v = Inl (TypeError ''list indices must be integers or slices, not str'')"
| "set_item w k v =
     Inl (TypeError (quoted (type_name w) @ '' object does not support item assignment''))"

fun setdefault_item :: "json \<Rightarrow> string \<Rightarrow> json \<Rightarrow> error + dict" where
  \<comment> \<open>\<open>result.setdefault(k, v)\<close> on a parsed value\<close>
  "setdefault_item (JObj d) k v = Inr (setdefault d k v)"
| "setdefault_item w k v =
     Inl (AttributeError (quoted (type_name w) @ '' object has no attribute ''
                          @ quoted ''setdefault''))"

definition setdefault_append :: "dict \<Rightarrow> string \<Rightarrow> json \<Rightarrow> error + dict" where
  \<comment> \<open>\<open>d.setdefault(k, []).append(v)\<close>: the value under \<open>k\<close> has to be a list\<close>
  "setdefault_append d k v =
     (case map_of d k of
        None \<Rightarrow> Inr (d @ [(k, JArr [v])])
      | Some (JArr xs) \<Rightarrow> Inr (dict_set d k (JArr (xs @ [v])))
      | Some w \<Rightarrow>
          Inl (AttributeError (quoted (type_name w) @ '' object has no attribute ''
                               @ quoted ''append'')))"

definition and_then :: "error + 'a \<Rightarrow> ('a \<Rightarrow> error + 'b) \<Rightarrow> error + 'b" where
  \<comment> \<open>sequencing: an exception skips the rest\<close>
  "and_then m f = (case m of Inl e \<Rightarrow> Inl e | Inr x \<Rightarrow> f x)"

section \<open>Transactions and the external collaborators\<close>

text \<open>
  A transaction carries every field the prompts index directly; \<open>velocity\<close> is the
  one field all readers fetch with a default.
\<close>

record transaction =
  transaction_id :: string
  amount :: rat
  from_account :: string
  to_account :: string
  merchant_category :: string
  timestamp :: string
  hour :: int
  device_id :: string
  location :: string
  velocity :: "int option"

text \<open>
  A prompt is the structured case an agent sends: which agent asks (and so which system
  prompt goes along), the transaction, and the texts interpolated into the request.
\<close>

datatype prompt =
    RiskPrompt transaction string string
  | FraudPrompt transaction string string string
  | CompliancePrompt transaction string string string

text \<open>
  What the engine consumes from outside: the reasoning capability behind
  \<open>BedrockAgent.invoke\<close> (it returns text or raises), \<open>json.loads\<close> (it returns a
  value or raises: \<open>JSONDecodeError\<close> on text that is no JSON, and other exceptions
  such as \<open>RecursionError\<close> on text nested too deep), \<open>str()\<close> of a parsed value
  that is not a string, and the clock.
\<close>

record env =
  invoke :: "prompt \<Rightarrow> error + string"
  json_loads :: "string \<Rightarrow> error + json"
  py_repr :: "json \<Rightarrow> string"
  now :: string

definition py_str :: "env \<Rightarrow> json \<Rightarrow> string" where
  \<comment> \<open>a value interpolated into an f-string\<close>
  "py_str e v = (case v of JStr s \<Rightarrow> s | _ \<Rightarrow> py_repr e v)"

section \<open>\<open>base_agent.py\<close>\<close>

definition json_str :: "string \<Rightarrow> string" where
  \<comment> \<open>the local \<open>json_str\<close>: the text inside the first code fence, else the whole
      response, stripped\<close>
  "json_str response =
     (if contains ''```json'' response
      then strip (py_split ''```'' (py_split ''```json'' response ! 1) ! 0)
      else if contains ''```'' response
      then strip (py_split ''```'' (py_split ''```'' response ! 1) ! 0)
      else strip response)"

definition parse_json_response :: "env \<Rightarrow> string \<Rightarrow> error + json" where
  \<comment> \<open>only \<open>JSONDecodeError\<close> is caught; any other exception of \<open>json.loads\<close>
      leaves the function\<close>
  "parse_json_response e response =
     (case json_loads e response of
        Inr v \<Rightarrow> Inr v
      | Inl (JSONDecodeError _) \<Rightarrow>
          (case json_loads e (json_str response) of
             Inr v \<Rightarrow> Inr v
           | Inl (JSONDecodeError msg) \<Rightarrow>
               Inr (JObj [(''raw_response'', JStr response), (''parse_error'', JStr msg)])
           | Inl err \<Rightarrow> Inl err)
      | Inl err \<Rightarrow> Inl err)"

section \<open>\<open>risk_analyst.py\<close>\<close>

record factor =
  name :: string
  contribution :: rat
  reason :: string

record breakdown =
  factors :: "factor list"
  base_score :: "rat option"
  total_score :: rat
  scoring_method :: string

definition score_to_level :: "rat \<Rightarrow> string" where
  "score_to_level score =
     (if score \<ge> 8/10 then ''Critical''
      else if score \<ge> 6/10 then ''High''
      else if score \<ge> 4/10 then ''Medium''
      else ''Low'')"

definition calculate_heuristic_risk :: "transaction \<Rightarrow> rat \<times> breakdown" where
  "calculate_heuristic_risk t =
     (let amt = amount t;
          (score, fs) =
            (if amt < 1 then
               (3/10, [\<lparr>name = ''Micro-transaction'', contribution = 3/10,
                        reason = ''Amount $'' @ fmt_fixed 2 False amt
                                 @ '' suggests card testing pattern''\<rparr>])
             else if amt > 5000 then
               (2/10, [\<lparr>name = ''Large transaction'', contribution = 2/10,
                        reason = ''High value $'' @ fmt_fixed 2 True amt
                                 @ '' exceeds typical threshold''\<rparr>])
             else (0, []));
          (score, fs) =
            (if hour t \<in> set [0, 1, 2, 3, 4, 23] then
               (score + 2/10,
                fs @ [\<lparr>name = ''Unusual hours'', contribution = 2/10,
                        reason = ''Transaction at '' @ show_int (hour t)
                                 @ '':00 - high-risk time window''\<rparr>])
             else (score, fs));
          (score, fs) =
            (if location t \<in> set [''Unknown'', ''Foreign'', ''VPN'', ''Proxy''] then
               (score + 25/100,
                fs @ [\<lparr>name = ''Suspicious location'', contribution = 25/100,
                        reason = ''Location ''
                                 @ quoted (location t)
                                 @ '' indicates potential fraud''\<rparr>])
             else (score, fs));
          (score, fs) =
            (if merchant_category t
                  \<in> set [''Gift Cards'', ''Crypto'', ''Wire Transfer'', ''Electronics'',
                         ''Jewelry''] then
               (score + 15/100,
                fs @ [\<lparr>name = ''High-risk merchant'', contribution = 15/100,
                        reason = quoted (merchant_category t)
                                 @ '' category commonly used for fraud''\<rparr>])
             else (score, fs));
          vel = (case velocity t of None \<Rightarrow> 1 | Some v \<Rightarrow> v);
          (score, fs) =
            (if vel > 5 then
               (score + 1/10,
                fs @ [\<lparr>name = ''High velocity'', contribution = 1/10,
                        reason = show_int vel
                                 @ '' transactions/hour exceeds normal rate''\<rparr>])
             else (score, fs));
          final_score = min score 1
      in (final_score,
          \<lparr>factors = fs, base_score = Some 0, total_score = final_score, scoring_method = []\<rparr>))"

definition identify_patterns :: "transaction \<Rightarrow> rat \<Rightarrow> string list" where
  "identify_patterns t risk_score =
     (let vel = (case velocity t of None \<Rightarrow> 1 | Some v \<Rightarrow> v)
      in (if risk_score > 7/10 then [''High GNN risk score''] else [])
         @ (if amount t < 1 then [''Card testing (micro-transaction)'']
            else if amount t > 5000 then [''Large value transaction'']
            else [])
         @ (if hour t \<in> set [0, 1, 2, 3, 4, 23] then [''Unusual transaction time''] else [])
         @ (if merchant_category t \<in> set [''Gift Cards'', ''Crypto'', ''Wire Transfer'']
            then [''High-risk merchant: '' @ merchant_category t] else [])
         @ (if location t \<in> set [''Unknown'', ''Foreign'', ''VPN'', ''Proxy'']
            then [''Suspicious location: '' @ location t] else [])
         @ (if vel > 5 then [''High velocity: '' @ show_int vel @ '' tx/hour''] else []))"

definition generate_explanation :: "rat \<Rightarrow> breakdown \<Rightarrow> string list \<Rightarrow> string" where
  "generate_explanation risk_score score_breakdown patterns =
     (let level = score_to_level risk_score;
          fs = factors score_breakdown
      in if fs = [] \<and> patterns = [] then
           level @ '' risk ('' @ fmt_percent risk_score
             @ ''). No significant risk factors detected.''
         else
           (let top_factors = take 3 (sort_key (\<lambda>x. - contribution x) fs);
                reasons = map reason top_factors
            in if level \<in> set [''Low''] then
                 level @ '' risk ('' @ fmt_percent risk_score
                   @ ''). Transaction appears normal with no major red flags.''
               else if level = ''Medium'' then
                 level @ '' risk ('' @ fmt_percent risk_score @ ''). ''
                   @ join ''; '' (take 2 reasons) @ ''. Escalating for investigation.''
               else
                 level @ '' risk ('' @ fmt_percent risk_score @ ''). ''
                   @ join ''; '' reasons @ ''. Immediate review required.''))"

definition json_of_factor :: "factor \<Rightarrow> json" where
  "json_of_factor f =
     JObj [(''name'', JStr (name f)), (''contribution'', JNum (contribution f)),
           (''reason'', JStr (reason f))]"

definition json_of_breakdown :: "breakdown \<Rightarrow> json" where
  \<comment> \<open>the \<open>score_breakdown\<close> dictionary, keys in the order the source writes them\<close>
  "json_of_breakdown b =
     (case base_score b of
        Some base \<Rightarrow>
          JObj [(''factors'', JArr (map json_of_factor (factors b))),
                (''base_score'', JNum base),
                (''total_score'', JNum (total_score b)),
                (''method'', JStr (scoring_method b))]
      | None \<Rightarrow>
          JObj [(''method'', JStr (scoring_method b)),
                (''factors'', JArr (map json_of_factor (factors b))),
                (''total_score'', JNum (total_score b))])"

definition patterns_text :: "string list \<Rightarrow> string" where
  \<comment> \<open>\<open>', '.join(patterns) if patterns else 'None'\<close>\<close>
  "patterns_text patterns = (if patterns \<noteq> [] then join '', '' patterns else ''None'')"

definition analyze_risk :: "env \<Rightarrow> (error + rat) option \<Rightarrow> transaction \<Rightarrow> error + dict" where
  \<comment> \<open>\<open>gnn\<close> is \<open>None\<close> when no model or no graph data is given, otherwise what running
      the model does: a score or an exception\<close>
  "analyze_risk e gnn t =
     (let (risk_score, score_breakdown) =
            (case gnn of
               Some (Inr s) \<Rightarrow>
                 (s, \<lparr>factors = [\<lparr>name = ''Graph Neural Network'', contribution = s,
                                   reason = ''ML model analyzed transaction patterns and relationships''\<rparr>],
                      base_score = None, total_score = s, scoring_method = ''GNN''\<rparr>)
             | Some (Inl _) \<Rightarrow>
                 (let (s, b) = calculate_heuristic_risk t
                  in (s, b\<lparr>scoring_method := ''Heuristic (GNN fallback)''\<rparr>))
             | None \<Rightarrow>
                 (let (s, b) = calculate_heuristic_risk t
                  in (s, b\<lparr>scoring_method := ''Heuristic''\<rparr>)));
          patterns = identify_patterns t risk_score;
          prompt = RiskPrompt t (fmt_fixed 3 False risk_score) (patterns_text patterns)
      in and_then (invoke e prompt) (\<lambda>response.
         and_then (parse_json_response e response) (\<lambda>parsed.
         and_then (set_item parsed ''risk_score'' (JNum risk_score)) (\<lambda>result.
         (let result = dict_set result ''patterns'' (JArr (map JStr patterns));
              result = dict_set result ''score_breakdown'' (json_of_breakdown score_breakdown);
              result = setdefault result ''risk_level'' (JStr (score_to_level risk_score));
              result = setdefault result ''risk_factors'' (JArr []);
              result = setdefault result ''monitoring_actions'' (JArr []);
              result = setdefault result ''prevention_strategies'' (JArr []);
              result = dict_set result ''agent'' (JStr ''Risk Analyst'');
              result = dict_set result ''explanation''
                         (JStr (generate_explanation risk_score score_breakdown patterns))
          in Inr result)))))"

section \<open>\<open>fraud_investigator.py\<close>\<close>

definition investigate_transaction ::
  "env \<Rightarrow> transaction \<Rightarrow> json \<Rightarrow> json \<Rightarrow> error + dict" where
  "investigate_transaction e t risk_score patterns =
     and_then (format_num (fmt_fixed 2 False) ''f'' risk_score) (\<lambda>score_text.
     and_then (if truthy patterns then join_json '', '' patterns else Inr ''None'')
       (\<lambda>patterns_txt.
     and_then (invoke e (FraudPrompt t
                 (case velocity t of None \<Rightarrow> ''N/A'' | Some v \<Rightarrow> show_int v)
                 score_text patterns_txt)) (\<lambda>response.
     and_then (parse_json_response e response) (\<lambda>parsed.
     and_then (setdefault_item parsed ''fraud_likelihood'' (JStr ''Unknown'')) (\<lambda>result.
     (let result = setdefault result ''recommendation'' (JStr ''REVIEW'');
          result = setdefault result ''fraud_indicators'' (JArr []);
          result = setdefault result ''explanation'' (JStr response);
          result = setdefault result ''confidence'' (JNum (5/10));
          result = setdefault result ''suggested_actions'' (JArr []);
          result = dict_set result ''agent'' (JStr ''Fraud Investigator'')
      in Inr result))))))"

section \<open>\<open>compliance_agent.py\<close>\<close>

definition generate_compliance_summary ::
  "env \<Rightarrow> dict \<Rightarrow> transaction \<Rightarrow> dict \<Rightarrow> error + string" where
  "generate_compliance_summary e result t investigation_result =
     (let amt = amount t;
          parts =
            (if truthy (dict_get result ''ctr_required'' JNull)
             then [''CTR required: $'' @ fmt_fixed 2 True amt @ '' exceeds $10,000 threshold.'']
             else []);
          parts = parts @
            (if truthy (dict_get result ''sar_required'' JNull)
             then [''SAR filing initiated: ''
                   @ py_str e (dict_get investigation_result ''fraud_likelihood'' (JStr ''Unknown''))
                   @ '' fraud likelihood on $'' @ fmt_fixed 2 True amt @ '' transaction.'']
             else if amt > 5000
             then [''SAR not required: Transaction $'' @ fmt_fixed 2 True amt
                   @ '' reviewed, no suspicious indicators confirmed.'']
             else [])
      in and_then (py_len (dict_get result ''aml_violations'' (JArr []))) (\<lambda>aml_count.
         and_then (py_len (dict_get result ''kyc_flags'' (JArr []))) (\<lambda>kyc_count.
         (let parts = parts @
                (if aml_count > 0
                 then [show_nat aml_count @ '' AML violation(s) flagged for review.'']
                 else []);
              parts = parts @
                (if kyc_count > 0
                 then [show_nat kyc_count @ '' KYC flag(s) require verification.'']
                 else []);
              parts =
                (if parts = []
                 then [''All compliance checks passed. No regulatory filings required.'']
                 else parts)
          in Inr (join '' '' parts)))))"

definition check_compliance :: "env \<Rightarrow> transaction \<Rightarrow> dict \<Rightarrow> error + dict" where
  "check_compliance e t investigation_result =
     and_then (invoke e (CompliancePrompt t
                 (py_str e (dict_get investigation_result ''recommendation'' (JStr ''N/A'')))
                 (py_str e (dict_get investigation_result ''fraud_likelihood'' (JStr ''N/A'')))
                 (py_str e (dict_get investigation_result ''confidence'' (JStr ''N/A'')))))
       (\<lambda>response.
     and_then (parse_json_response e response) (\<lambda>result.
     (let amt = amount t
      in and_then
           (if amt > 10000 then
              and_then (set_item result ''ctr_required'' (JBool True)) (\<lambda>d.
              and_then (py_in ''ctr_required'' (dict_get d ''regulatory_actions'' (JArr [])))
                (\<lambda>listed.
              if \<not> listed then
                and_then (setdefault_append d ''regulatory_actions''
                            (JStr ''File Currency Transaction Report (CTR) - amount exceeds $10,000''))
                  (\<lambda>d. Inr (JObj d))
              else Inr (JObj d)))
            else Inr result) (\<lambda>result.
         (let fraud_likelihood = dict_get investigation_result ''fraud_likelihood'' (JStr ''Low'')
          in and_then
               (if amt > 5000 \<and> fraud_likelihood \<in> set [JStr ''Medium'', JStr ''High''] then
                  and_then (set_item result ''sar_required'' (JBool True)) (\<lambda>d.
                  Inr (JObj (setdefault d ''sar_reason''
                         (JStr (''Suspicious transaction over $5,000 with ''
                                @ py_str e fraud_likelihood @ '' fraud likelihood'')))))
                else Inr result) (\<lambda>result.
             and_then (setdefault_item result ''sar_required'' (JBool False)) (\<lambda>result.
             (let result = setdefault result ''ctr_required'' (JBool False);
                  result = setdefault result ''sar_reason'' (JStr []);
                  result = setdefault result ''aml_violations'' (JArr []);
                  result = setdefault result ''kyc_flags'' (JArr []);
                  result = setdefault result ''regulatory_actions'' (JArr []);
                  result = setdefault result ''compliance_notes'' (JStr []);
                  result = setdefault result ''risk_rating'' (JStr ''Low'');
                  result = dict_set result ''agent'' (JStr ''Compliance Officer'')
              in and_then (generate_compliance_summary e result t investigation_result)
                   (\<lambda>summary.
                 Inr (dict_set result ''compliance_summary'' (JStr summary)))))))))))"

section \<open>\<open>orchestrator.py\<close>\<close>

text \<open>
  The state of one workflow run. The returned run is the state without the transaction
  and the error field. \<open>decision_reason\<close> has no key in the initial state; its only
  reader fetches it with the default \<open>""\<close>, which is its initial value here.
\<close>

record workflow_run =
  run_transaction_id :: string
  run_timestamp :: string
  steps :: "string list"
  risk_analysis :: "dict option"
  fraud_investigation :: "dict option"
  compliance_check :: "dict option"
  final_decision :: json
  decision_reason :: string
  status :: string

record investigation_state = workflow_run +
  transaction :: transaction
  error :: "string option"

text \<open>
  Every call of \<open>_emit_step\<close> is recorded, in order: the event type and its data. A
  callback that raises is logged and ignored there, so emission never changes the run.
\<close>

datatype event_data =
    StartData string
  | ThinkingData string string
  | ResultData string dict
  | CompleteData workflow_run

type_synonym event = "string \<times> event_data"

definition present :: "dict option \<Rightarrow> bool" where
  \<comment> \<open>the truth value of an optional dictionary: neither \<open>None\<close> nor empty\<close>
  "present d = (case d of None \<Rightarrow> False | Some x \<Rightarrow> x \<noteq> [])"

definition or_empty :: "dict option \<Rightarrow> dict" where
  "or_empty d = (case d of None \<Rightarrow> [] | Some x \<Rightarrow> x)"

definition should_investigate :: "dict option \<Rightarrow> error + string" where
  "should_investigate ra =
     (if present ra then
        and_then (py_gt (dict_get (or_empty ra) ''risk_score'' (JNum 0)) (4/10)) (\<lambda>above.
        Inr (if above then ''investigate'' else ''approve''))
      else Inr ''approve'')"

definition get_routing_reason :: "env \<Rightarrow> dict \<Rightarrow> string \<Rightarrow> error + string" where
  "get_routing_reason e ra route =
     and_then (format_num fmt_percent ''%'' (dict_get ra ''risk_score'' (JNum 0))) (\<lambda>pct.
     (let risk_level = py_str e (dict_get ra ''risk_level'' (JStr ''Unknown''))
      in if route = ''approve'' then
           Inr (''Risk score '' @ pct @ '' is below 40% threshold. ''
                @ risk_level @ '' risk level - no further investigation needed. ''
                @ ''Transaction approved by Risk Analyst.'')
         else
           Inr (''Risk score '' @ pct @ '' exceeds 40% threshold. ''
                @ risk_level @ '' risk level detected. ''
                @ ''Escalating to Fraud Investigator for detailed analysis.'')))"

definition risk_analysis_step :: "env \<Rightarrow> transaction \<Rightarrow> error + dict \<times> string" where
  \<comment> \<open>the \<open>try\<close> block of \<open>_risk_analysis_node\<close>: the assessment and its step message\<close>
  "risk_analysis_step e t =
     and_then (analyze_risk e None t) (\<lambda>ra.
     and_then (should_investigate (Some ra)) (\<lambda>route.
     and_then (get_routing_reason e ra route) (\<lambda>why.
     (let ra = dict_set ra ''routing_reason'' (JStr why);
          ra = dict_set ra ''escalated'' (JBool (route = ''investigate''))
      in and_then (dict_item ra ''risk_level'') (\<lambda>level.
         and_then (dict_item ra ''risk_score'') (\<lambda>score.
         and_then (format_num (fmt_fixed 3 False) ''f'' score) (\<lambda>score_text.
         Inr (ra, ''Risk Analyst: '' @ py_str e level @ '' risk (score: ''
                  @ score_text @ '')''))))))))"

definition risk_analysis_node ::
  "env \<Rightarrow> investigation_state \<Rightarrow> event list \<times> investigation_state" where
  "risk_analysis_node e st =
     (let thinking = (''agent_thinking'',
                      ThinkingData ''Risk Analyst'' ''Analyzing transaction risk...'')
      in case risk_analysis_step e (transaction st) of
           Inr (ra, step_msg) \<Rightarrow>
             ([thinking, (''agent_result'', ResultData ''Risk Analyst'' ra)],
              st\<lparr>risk_analysis := Some ra, steps := steps st @ [step_msg]\<rparr>)
         | Inl err \<Rightarrow>
             ([thinking], st\<lparr>error := Some (str_of_error err), status := ''error''\<rparr>))"

definition fraud_investigation_step ::
  "env \<Rightarrow> investigation_state \<Rightarrow> error + dict \<times> string" where
  "fraud_investigation_step e st =
     (let ra = (if present (risk_analysis st) then or_empty (risk_analysis st) else [])
      in and_then (investigate_transaction e (transaction st)
                     (dict_get ra ''risk_score'' (JNum (5/10)))
                     (dict_get ra ''patterns'' (JArr []))) (\<lambda>fi.
         and_then (dict_item fi ''recommendation'') (\<lambda>recommendation.
         and_then (dict_item fi ''fraud_likelihood'') (\<lambda>likelihood.
         Inr (fi, ''Fraud Investigator: '' @ py_str e recommendation @ '' (''
                  @ py_str e likelihood @ '' likelihood)'')))))"

definition fraud_investigation_node ::
  "env \<Rightarrow> investigation_state \<Rightarrow> event list \<times> investigation_state" where
  "fraud_investigation_node e st =
     (let thinking = (''agent_thinking'',
                      ThinkingData ''Fraud Investigator'' ''Investigating suspicious activity...'')
      in case fraud_investigation_step e st of
           Inr (fi, step_msg) \<Rightarrow>
             ([thinking, (''agent_result'', ResultData ''Fraud Investigator'' fi)],
              st\<lparr>fraud_investigation := Some fi, steps := steps st @ [step_msg]\<rparr>)
         | Inl err \<Rightarrow>
             ([thinking],
              st\<lparr>fraud_investigation :=
                    Some [(''recommendation'', JStr ''REVIEW''),
                          (''fraud_likelihood'', JStr ''Unknown''),
                          (''explanation'', JStr (''Investigation error: '' @ str_of_error err))],
                  steps := steps st @ [''Fraud Investigator: Error - '' @ str_of_error err]\<rparr>))"

definition compliance_check_step ::
  "env \<Rightarrow> investigation_state \<Rightarrow> error + dict \<times> string" where
  "compliance_check_step e st =
     (let fi = (if present (fraud_investigation st) then or_empty (fraud_investigation st)
                else [(''recommendation'', JStr ''REVIEW''),
                      (''fraud_likelihood'', JStr ''Unknown'')])
      in and_then (check_compliance e (transaction st) fi) (\<lambda>cc.
         and_then (dict_item cc ''sar_required'') (\<lambda>sar.
         Inr (cc, ''Compliance Officer: SAR ''
                  @ (if truthy sar then ''required'' else ''not required'')))))"

definition compliance_check_node ::
  "env \<Rightarrow> investigation_state \<Rightarrow> event list \<times> investigation_state" where
  "compliance_check_node e st =
     (let thinking = (''agent_thinking'',
                      ThinkingData ''Compliance Officer'' ''Checking regulatory requirements...'')
      in case compliance_check_step e st of
           Inr (cc, step_msg) \<Rightarrow>
             ([thinking, (''agent_result'', ResultData ''Compliance Officer'' cc)],
              st\<lparr>compliance_check := Some cc, steps := steps st @ [step_msg]\<rparr>)
         | Inl err \<Rightarrow>
             ([thinking],
              st\<lparr>compliance_check :=
                    Some [(''sar_required'', JBool False),
                          (''compliance_notes'',
                           JStr (''Compliance check error: '' @ str_of_error err))],
                  steps := steps st @ [''Compliance Officer: Error - '' @ str_of_error err]\<rparr>))"

definition build_decision_reason ::
  "env \<Rightarrow> json \<Rightarrow> dict option \<Rightarrow> dict option \<Rightarrow> dict option \<Rightarrow> error + string" where
  "build_decision_reason e decision ra fi cc =
     (let risk_score = (if present ra then dict_get (or_empty ra) ''risk_score'' (JNum 0)
                        else JNum 0);
          fraud_likelihood =
            (if present fi then dict_get (or_empty fi) ''fraud_likelihood'' (JStr ''Unknown'')
             else JStr ''Unknown'');
          confidence = (if present fi then dict_get (or_empty fi) ''confidence'' (JNum 0)
                        else JNum 0)
      in and_then
           (if decision = JStr ''APPROVE'' then
              and_then (format_num fmt_percent ''%'' risk_score) (\<lambda>pct.
              and_then
                (if fraud_likelihood = JStr ''Low'' then
                   and_then (format_num fmt_percent ''%'' confidence) (\<lambda>conf.
                   Inr [''fraud likelihood low ('' @ conf @ '' confidence)''])
                 else Inr []) (\<lambda>low.
              Inr ([''Approved: Risk score '' @ pct] @ low
                   @ [''no indicators require blocking.''])))
            else if decision = JStr ''DECLINE'' then
              and_then (format_num fmt_percent ''%'' risk_score) (\<lambda>pct.
              and_then (format_num fmt_percent ''%'' confidence) (\<lambda>conf.
              and_then
                (if present fi \<and> truthy (dict_get (or_empty fi) ''fraud_indicators'' JNull) then
                   and_then (dict_item (or_empty fi) ''fraud_indicators'') (\<lambda>all_indicators.
                   and_then (py_take 2 all_indicators) (\<lambda>indicators.
                   and_then (join_json '', '' indicators) (\<lambda>listed.
                   Inr [''Key indicators: '' @ listed @ ''.''])))
                 else Inr []) (\<lambda>key.
              Inr ([''Declined: Risk score '' @ pct,
                    py_str e fraud_likelihood @ '' fraud likelihood ('' @ conf
                      @ '' confidence).''] @ key))))
            else
              and_then (format_num fmt_percent ''%'' risk_score) (\<lambda>pct.
              Inr [''Manual Review Required: Risk score '' @ pct,
                   py_str e fraud_likelihood @ '' fraud likelihood.'',
                   ''Mixed signals require human judgment.''])) (\<lambda>parts.
         (let parts = parts @
                (if present cc \<and> truthy (dict_get (or_empty cc) ''sar_required'' JNull)
                 then [''SAR filing initiated.''] else []);
              parts = parts @
                (if present cc \<and> truthy (dict_get (or_empty cc) ''ctr_required'' JNull)
                 then [''CTR required (>$10K).''] else [])
          in Inr (join '' '' parts))))"

definition finalize_node :: "env \<Rightarrow> investigation_state \<Rightarrow> error + investigation_state" where
  \<comment> \<open>the one node without a \<open>try\<close>: what it raises leaves the graph\<close>
  "finalize_node e st =
     (let fi = fraud_investigation st;
          ra = risk_analysis st;
          cc = compliance_check st
      in and_then
           (if present fi then
              (let final_decision = dict_get (or_empty fi) ''recommendation'' (JStr ''REVIEW'')
               in and_then (build_decision_reason e final_decision ra fi cc) (\<lambda>why.
                  Inr (final_decision, why)))
            else
              and_then (if present ra
                        then py_le (dict_get (or_empty ra) ''risk_score'' (JNum 0)) (4/10)
                        else Inr False) (\<lambda>below.
              if below then
                and_then (format_num fmt_percent ''%''
                            (dict_get (or_empty ra) ''risk_score'' (JNum 0))) (\<lambda>pct.
                Inr (JStr ''APPROVE'',
                     ''Approved: Risk score '' @ pct @ '' below threshold. ''
                     @ ''No suspicious patterns detected. Standard transaction.''))
              else
                Inr (JStr ''REVIEW'',
                     ''Manual review required due to incomplete analysis.'')))
           (\<lambda>(final_decision, why).
         Inr (st\<lparr>final_decision := final_decision,
                 decision_reason := why,
                 status := ''completed'',
                 steps := steps st @ [''Final Decision: '' @ py_str e final_decision]\<rparr>)))"

definition graph_invoke ::
  "env \<Rightarrow> investigation_state \<Rightarrow> event list \<times> (error + investigation_state)" where
  \<comment> \<open>the compiled graph of \<open>_build_graph\<close>: entry \<open>analyze_risk\<close>, the conditional edge
      (\<open>investigate\<close> to \<open>investigate_fraud\<close>, \<open>approve\<close> to \<open>finalize\<close>), then
      \<open>investigate_fraud\<close>, \<open>check_compliance\<close>, \<open>finalize\<close>, \<open>END\<close>\<close>
  "graph_invoke e st =
     (let (ev1, st1) = risk_analysis_node e st
      in case should_investigate (risk_analysis st1) of
           Inl err \<Rightarrow> (ev1, Inl err)
         | Inr route \<Rightarrow>
             if route = ''investigate'' then
               (let (ev2, st2) = fraud_investigation_node e st1;
                    (ev3, st3) = compliance_check_node e st2
                in (ev1 @ ev2 @ ev3, finalize_node e st3))
             else (ev1, finalize_node e st1))"

definition initial_state :: "env \<Rightarrow> transaction \<Rightarrow> investigation_state" where
  "initial_state e t =
     \<lparr>run_transaction_id = transaction_id t,
      run_timestamp = now e,
      steps = [],
      risk_analysis = None,
      fraud_investigation = None,
      compliance_check = None,
      final_decision = JStr [],
      decision_reason = [],
      status = ''pending'',
      transaction = t,
      error = None\<rparr>"

definition run_of :: "investigation_state \<Rightarrow> workflow_run" where
  \<comment> \<open>the \<open>result\<close> dictionary built from the final state\<close>
  "run_of st =
     \<lparr>run_transaction_id = run_transaction_id st,
      run_timestamp = run_timestamp st,
      steps = steps st,
      risk_analysis = risk_analysis st,
      fraud_investigation = fraud_investigation st,
      compliance_check = compliance_check st,
      final_decision = final_decision st,
      decision_reason = decision_reason st,
      status = status st\<rparr>"

definition investigate_async :: "env \<Rightarrow> transaction \<Rightarrow> event list \<times> (error + workflow_run)" where
  \<comment> \<open>the events emitted, and the run returned or the exception that left the graph\<close>
  "investigate_async e t =
     (let start = (''investigation_start'', StartData (transaction_id t));
          (evs, final) = graph_invoke e (initial_state e t)
      in case final of
           Inl err \<Rightarrow> (start # evs, Inl err)
         | Inr final_state \<Rightarrow>
             (let result = run_of final_state
              in (start # evs @ [(''investigation_complete'', CompleteData result)],
                  Inr result)))"

subsection \<open>The engine over an arbitrary assessor\<close>

text \<open>
  The orchestrator keeps its assessor in the attribute \<open>self.risk_analyst\<close>, and
  \<open>_risk_analysis_node\<close> reaches it only through
  \<open>self.risk_analyst.analyze_risk(transaction)\<close>; the tests of the repository replace
  the class by a mock. The definitions below are the definitions above with that
  collaborator as the parameter \<open>assess\<close>, so that the statements of the stage that follow
  the assessor's return can be studied apart from the assessor. With
  \<open>analyze_risk e None\<close> for \<open>assess\<close> they are the definitions above.
\<close>

definition risk_analysis_step_with ::
  "(transaction \<Rightarrow> error + dict) \<Rightarrow> env \<Rightarrow> transaction \<Rightarrow> error + dict \<times> string" where
  "risk_analysis_step_with assess e t =
     and_then (assess t) (\<lambda>ra.
     and_then (should_investigate (Some ra)) (\<lambda>route.
     and_then (get_routing_reason e ra route) (\<lambda>why.
     (let ra = dict_set ra ''routing_reason'' (JStr why);
          ra = dict_set ra ''escalated'' (JBool (route = ''investigate''))
      in and_then (dict_item ra ''risk_level'') (\<lambda>level.
         and_then (dict_item ra ''risk_score'') (\<lambda>score.
         and_then (format_num (fmt_fixed 3 False) ''f'' score) (\<lambda>score_text.
         Inr (ra, ''Risk Analyst: '' @ py_str e level @ '' risk (score: ''
                  @ score_text @ '')''))))))))"

definition risk_analysis_node_with ::
  "(transaction \<Rightarrow> error + dict) \<Rightarrow> env \<Rightarrow> investigation_state
     \<Rightarrow> event list \<times> investigation_state" where
  "risk_analysis_node_with assess e st =
     (let thinking = (''agent_thinking'',
                      ThinkingData ''Risk Analyst'' ''Analyzing transaction risk...'')
      in case risk_analysis_step_with assess e (transaction st) of
           Inr (ra, step_msg) \<Rightarrow>
             ([thinking, (''agent_result'', ResultData ''Risk Analyst'' ra)],
              st\<lparr>risk_analysis := Some ra, steps := steps st @ [step_msg]\<rparr>)
         | Inl err \<Rightarrow>
             ([thinking], st\<lparr>error := Some (str_of_error err), status := ''error''\<rparr>))"

definition graph_invoke_with ::
  "(transaction \<Rightarrow> error + dict) \<Rightarrow> env \<Rightarrow> investigation_state
     \<Rightarrow> event list \<times> (error + investigation_state)" where
  "graph_invoke_with assess e st =
     (let (ev1, st1) = risk_analysis_node_with assess e st
      in case should_investigate (risk_analysis st1) of
           Inl err \<Rightarrow> (ev1, Inl err)
         | Inr route \<Rightarrow>
             if route = ''investigate'' then
               (let (ev2, st2) = fraud_investigation_node e st1;
                    (ev3, st3) = compliance_check_node e st2
                in (ev1 @ ev2 @ ev3, finalize_node e st3))
             else (ev1, finalize_node e st1))"

definition investigate_async_with ::
  "(transaction \<Rightarrow> error + dict) \<Rightarrow> env \<Rightarrow> transaction
     \<Rightarrow> event list \<times> (error + workflow_run)" where
  "investigate_async_with assess e t =
     (let start = (''investigation_start'', StartData (transaction_id t));
          (evs, final) = graph_invoke_with assess e (initial_state e t)
      in case final of
           Inl err \<Rightarrow> (start # evs, Inl err)
         | Inr final_state \<Rightarrow>
             (let result = run_of final_state
              in (start # evs @ [(''investigation_complete'', CompleteData result)],
                  Inr result)))"

section \<open>Sample transactions and collaborators\<close>

text \<open>
  Concrete inputs for the examples. \<open>sample_loads\<close> gives what \<open>json.loads\<close> gives
  on the texts of its table and on text that is no JSON at all; the examples use no
  other text. \<open>deep_text\<close> is a hundred thousand opening brackets, on which
  \<open>json.loads\<close> exceeds the recursion limit.
\<close>

definition deep_text :: string where
  "deep_text = replicate 100000 CHR ''[''"

definition json_table :: "(string \<times> (error + json)) list" where
  \<open>json_table =
     [(''[]'', Inr (JArr [])),
      (''{}'', Inr (JObj [])),
      (''{"sar_required": true}'', Inr (JObj [(''sar_required'', JBool True)])),
      (''{"recommendation": "ESCALATE"}'',
       Inr (JObj [(''recommendation'', JStr ''ESCALATE'')])),
      (''{"recommendation": "DECLINE", "confidence": "high"}'',
       Inr (JObj [(''recommendation'', JStr ''DECLINE''), (''confidence'', JStr ''high'')])),
      (deep_text,
       Inl (RecursionError
              ''maximum recursion depth exceeded while decoding a JSON array from a unicode string''))]\<close>

definition sample_loads :: "string \<Rightarrow> error + json" where
  "sample_loads s =
     (case map_of json_table s of
        Some r \<Rightarrow> r
      | None \<Rightarrow> Inl (JSONDecodeError ''Expecting value: line 1 column 1 (char 0)''))"

definition sample_repr :: "json \<Rightarrow> string" where
  "sample_repr v =
     (case v of JNull \<Rightarrow> ''None'' | JBool b \<Rightarrow> (if b then ''True'' else ''False'')
      | _ \<Rightarrow> ''<value>'')"

definition scripted :: "error + string \<Rightarrow> error + string \<Rightarrow> error + string \<Rightarrow> env" where
  \<comment> \<open>a capability that answers the three agents with the given outcomes\<close>
  "scripted risk fraud compliance =
     \<lparr>invoke = (\<lambda>p. case p of
                     RiskPrompt _ _ _ \<Rightarrow> risk
                   | FraudPrompt _ _ _ _ \<Rightarrow> fraud
                   | CompliancePrompt _ _ _ _ \<Rightarrow> compliance),
      json_loads = sample_loads,
      py_repr = sample_repr,
      now = ''2026-01-11T10:00:00''\<rparr>"

definition prose :: "error + string" where
  "prose = Inr ''I cannot answer in JSON.''"

definition down :: "error + string" where
  "down = Inl (InvokeError ''Could not connect to the endpoint URL'')"

definition tx_quiet :: transaction where
  "tx_quiet =
     \<lparr>transaction_id = ''TX-B'', amount = 50, from_account = ''ACC-100'',
      to_account = ''ACC-200'', merchant_category = ''Groceries'',
      timestamp = ''2026-01-11T14:00:00Z'', hour = 14, device_id = ''DEV-001'',
      location = ''Home'', velocity = Some 1\<rparr>"

definition tx_edge :: transaction where
  "tx_edge =
     \<lparr>transaction_id = ''TX-E'', amount = 6000, from_account = ''ACC-100'',
      to_account = ''ACC-200'', merchant_category = ''Groceries'',
      timestamp = ''2026-01-11T02:00:00Z'', hour = 2, device_id = ''DEV-001'',
      location = ''Home'', velocity = Some 1\<rparr>"

definition tx_hot :: transaction where
  "tx_hot =
     \<lparr>transaction_id = ''TX-C'', amount = 12000, from_account = ''ACC-300'',
      to_account = ''ACC-400'', merchant_category = ''Crypto'',
      timestamp = ''2026-01-11T02:00:00Z'', hour = 2, device_id = ''DEV-002'',
      location = ''Unknown'', velocity = Some 1\<rparr>"

definition high_finding :: dict where
  "high_finding = [(''fraud_likelihood'', JStr ''High''), (''recommendation'', JStr ''DECLINE'')]"

definition low_finding :: dict where
  "low_finding = [(''fraud_likelihood'', JStr ''Low''), (''recommendation'', JStr ''APPROVE'')]"

definition outcome_flag :: "string \<Rightarrow> error + dict \<Rightarrow> json option" where
  \<comment> \<open>a key of a returned dictionary; nothing when the call raised\<close>
  "outcome_flag k r = (case r of Inl _ \<Rightarrow> None | Inr d \<Rightarrow> map_of d k)"

definition list_or_absent :: "dict \<Rightarrow> string \<Rightarrow> bool" where
  \<comment> \<open>the key is missing or holds a list\<close>
  "list_or_absent d k =
     (case map_of d k of None \<Rightarrow> True | Some (JArr xs) \<Rightarrow> True | Some _ \<Rightarrow> False)"



definition stage_events :: "string \<Rightarrow> bool \<Rightarrow> (string \<times> string) list" where
  \<comment> \<open>the events of one stage: thinking, then the result when the stage has one\<close>
  "stage_events a ok =
     (''agent_thinking'', a) # (if ok then [(''agent_result'', a)] else [])"


fun is_object :: "json \<Rightarrow> bool" where
  "is_object (JObj d) = True"
| "is_object v = False"

section \<open>Basic facts\<close>

lemma and_then_Inl [simp]: "and_then (Inl err) f = Inl err"
  by (simp add: and_then_def)

lemma and_then_Inr [simp]: "and_then (Inr x) f = f x"
  by (simp add: and_then_def)

lemma and_then_eq_Inr:
  "and_then m f = Inr y \<longleftrightarrow> (\<exists>x. m = Inr x \<and> f x = Inr y)"
  by (cases m) simp_all

lemma map_of_dict_set:
  "map_of (dict_set d k v) k' = (if k' = k then Some v else map_of d k')"
  by (induction d) auto

lemma map_of_setdefault:
  "map_of (setdefault d k v) k' =
     (if k' = k \<and> map_of d k = None then Some v else map_of d k')"
  by (auto simp: setdefault_def map_add_def split: option.splits)

lemma dict_set_not_Nil [simp]: "dict_set d k v \<noteq> []"
  by (cases d) (auto split: if_splits)

lemma set_item_eq_Inr:
  "set_item w k v = Inr d \<longleftrightarrow> (\<exists>d0. w = JObj d0 \<and> d = dict_set d0 k v)"
  by (cases w) auto

lemma setdefault_item_eq_Inr:
  "setdefault_item w k v = Inr d \<longleftrightarrow> (\<exists>d0. w = JObj d0 \<and> d = setdefault d0 k v)"
  by (cases w) auto

lemma present_Some [simp]: "present (Some d) = (d \<noteq> [])"
  by (simp add: present_def)

lemma present_None [simp]: "present None = False"
  by (simp add: present_def)

lemma or_empty_Some [simp]: "or_empty (Some d) = d"
  by (simp add: or_empty_def)

lemma map_of_Some_not_Nil: "map_of d k = Some v \<Longrightarrow> d \<noteq> []"
  by auto

lemma analyze_risk_fields:
  assumes "analyze_risk e None t = Inr ra"
  shows "map_of ra ''risk_score'' = Some (JNum (fst (calculate_heuristic_risk t)))"
    and "map_of ra ''risk_level'' \<noteq> None"
    and "map_of ra ''patterns'' =
           Some (JArr (map JStr (identify_patterns t (fst (calculate_heuristic_risk t)))))"
  using assms
  by (auto simp: analyze_risk_def Let_def and_then_eq_Inr set_item_eq_Inr map_of_dict_set
        map_of_setdefault split: prod.splits)

lemma risk_analysis_step_Inl:
  "analyze_risk e None t = Inl err \<Longrightarrow> risk_analysis_step e t = Inl err"
  by (simp add: risk_analysis_step_def)

lemma risk_analysis_step_Inr:
  assumes "analyze_risk e None t = Inr ra0"
  shows "\<exists>why msg. risk_analysis_step e t =
           Inr (dict_set (dict_set ra0 ''routing_reason'' (JStr why)) ''escalated''
                  (JBool (4/10 < fst (calculate_heuristic_risk t))), msg)"
proof -
  from analyze_risk_fields[OF assms]
  obtain lv where s: "map_of ra0 ''risk_score'' = Some (JNum (fst (calculate_heuristic_risk t)))"
    and l: "map_of ra0 ''risk_level'' = Some lv"
    by auto
  from s have ne: "ra0 \<noteq> []" by auto
  show ?thesis
    using assms s l ne
    by (auto simp: risk_analysis_step_def should_investigate_def get_routing_reason_def
        dict_get_def dict_item_def Let_def map_of_dict_set intro!: exI)
qed

lemma risk_analysis_step_score:
  assumes "risk_analysis_step e t = Inr (ra, msg)"
  shows "map_of ra ''risk_score'' = Some (JNum (fst (calculate_heuristic_risk t)))"
    and "map_of ra ''patterns'' =
           Some (JArr (map JStr (identify_patterns t (fst (calculate_heuristic_risk t)))))"
proof -
  obtain ra0 where a: "analyze_risk e None t = Inr ra0"
    using assms by (cases "analyze_risk e None t") (auto simp: risk_analysis_step_def)
  from risk_analysis_step_Inr[OF a] assms analyze_risk_fields[OF a]
  show "map_of ra ''risk_score'' = Some (JNum (fst (calculate_heuristic_risk t)))"
    and "map_of ra ''patterns'' =
           Some (JArr (map JStr (identify_patterns t (fst (calculate_heuristic_risk t)))))"
    by (auto simp: map_of_dict_set)
qed

lemma should_investigate_score:
  "map_of ra ''risk_score'' = Some (JNum s) \<Longrightarrow>
   should_investigate (Some ra) = Inr (if 4/10 < s then ''investigate'' else ''approve'')"
  by (auto simp: should_investigate_def dict_get_def)

lemma risk_node_failed:
  assumes "risk_analysis_step e t = Inl err"
  shows "risk_analysis_node e (initial_state e t) =
           ([(''agent_thinking'', ThinkingData ''Risk Analyst'' ''Analyzing transaction risk...'')],
            (initial_state e t)\<lparr>error := Some (str_of_error err), status := ''error''\<rparr>)"
  using assms by (simp add: risk_analysis_node_def initial_state_def)

lemma risk_node_ok:
  assumes "risk_analysis_step e t = Inr (ra, msg)"
  shows "risk_analysis_node e (initial_state e t) =
           ([(''agent_thinking'', ThinkingData ''Risk Analyst'' ''Analyzing transaction risk...''),
             (''agent_result'', ResultData ''Risk Analyst'' ra)],
            (initial_state e t)\<lparr>risk_analysis := Some ra, steps := [msg]\<rparr>)"
  using assms by (simp add: risk_analysis_node_def initial_state_def)

lemma finalize_incomplete:
  assumes "risk_analysis st = None" "fraud_investigation st = None"
  shows "finalize_node e st =
           Inr (st\<lparr>final_decision := JStr ''REVIEW'',
                   decision_reason := ''Manual review required due to incomplete analysis.'',
                   status := ''completed'',
                   steps := steps st @ [''Final Decision: REVIEW'']\<rparr>)"
  using assms by (simp add: finalize_node_def py_str_def)

lemma finalize_approve:
  assumes "risk_analysis st = Some ra" "map_of ra ''risk_score'' = Some (JNum s)" "s \<le> 4/10"
    "fraud_investigation st = None"
  shows "finalize_node e st =
           Inr (st\<lparr>final_decision := JStr ''APPROVE'',
                   decision_reason := ''Approved: Risk score '' @ fmt_percent s
                     @ '' below threshold. No suspicious patterns detected. Standard transaction.'',
                   status := ''completed'',
                   steps := steps st @ [''Final Decision: APPROVE'']\<rparr>)"
proof -
  from assms(2) have "ra \<noteq> []" by auto
  then show ?thesis
    using assms by (simp add: finalize_node_def py_str_def dict_get_def)
qed

lemma initial_state_fields [simp]:
  "risk_analysis (initial_state e t) = None"
  "fraud_investigation (initial_state e t) = None"
  "compliance_check (initial_state e t) = None"
  "steps (initial_state e t) = []"
  "transaction (initial_state e t) = t"
  by (simp_all add: initial_state_def)

lemma graph_failed:
  assumes "risk_analysis_step e t = Inl err"
  shows "graph_invoke e (initial_state e t) =
           ([(''agent_thinking'', ThinkingData ''Risk Analyst'' ''Analyzing transaction risk...'')],
            Inr ((initial_state e t)\<lparr>error := Some (str_of_error err),
                   final_decision := JStr ''REVIEW'',
                   decision_reason := ''Manual review required due to incomplete analysis.'',
                   status := ''completed'',
                   steps := [''Final Decision: REVIEW'']\<rparr>))"
  by (simp add: graph_invoke_def risk_node_failed[OF assms] should_investigate_def
      finalize_incomplete)


lemma graph_skip:
  assumes "risk_analysis_step e t = Inr (ra, msg)"
    and "fst (calculate_heuristic_risk t) \<le> 4/10"
  shows "graph_invoke e (initial_state e t) =
           ([(''agent_thinking'', ThinkingData ''Risk Analyst'' ''Analyzing transaction risk...''),
             (''agent_result'', ResultData ''Risk Analyst'' ra)],
            Inr ((initial_state e t)\<lparr>risk_analysis := Some ra,
                   final_decision := JStr ''APPROVE'',
                   decision_reason := ''Approved: Risk score ''
                     @ fmt_percent (fst (calculate_heuristic_risk t))
                     @ '' below threshold. No suspicious patterns detected. Standard transaction.'',
                   status := ''completed'',
                   steps := [msg, ''Final Decision: APPROVE'']\<rparr>))"
proof -
  note s = risk_analysis_step_score(1)[OF assms(1)]
  show ?thesis
    using assms(2)
    by (simp add: graph_invoke_def risk_node_ok[OF assms(1)] should_investigate_score[OF s]
        finalize_approve[OF _ s])
qed

lemma graph_escalated:
  assumes "risk_analysis_step e t = Inr (ra, msg)"
    and "4/10 < fst (calculate_heuristic_risk t)"
  shows "graph_invoke e (initial_state e t) =
           (let st1 = (initial_state e t)\<lparr>risk_analysis := Some ra, steps := [msg]\<rparr>;
                (ev2, st2) = fraud_investigation_node e st1;
                (ev3, st3) = compliance_check_node e st2
            in ([(''agent_thinking'', ThinkingData ''Risk Analyst'' ''Analyzing transaction risk...''),
                 (''agent_result'', ResultData ''Risk Analyst'' ra)] @ ev2 @ ev3,
                finalize_node e st3))"
proof -
  note s = risk_analysis_step_score(1)[OF assms(1)]
  show ?thesis
    using assms(2)
    by (simp add: graph_invoke_def risk_node_ok[OF assms(1)] should_investigate_score[OF s]
        Let_def split: prod.splits)
qed


lemma analyze_risk_invoke_raises:
  assumes "\<And>p. invoke e p = Inl err"
  shows "analyze_risk e None t = Inl err"
  using assms by (simp add: analyze_risk_def Let_def split: prod.splits)

lemma invoke_scripted_down [simp]: "invoke (scripted (Inl x) (Inl x) (Inl x)) p = Inl x"
  by (cases p) (simp_all add: scripted_def)

lemma investigate_async_failed:
  assumes "risk_analysis_step e t = Inl err"
  shows "investigate_async e t =
           (let r = \<lparr>run_transaction_id = transaction_id t, run_timestamp = now e,
                      steps = [''Final Decision: REVIEW''], risk_analysis = None,
                      fraud_investigation = None, compliance_check = None,
                      final_decision = JStr ''REVIEW'',
                      decision_reason = ''Manual review required due to incomplete analysis.'',
                      status = ''completed''\<rparr>
            in ([(''investigation_start'', StartData (transaction_id t)),
                 (''agent_thinking'', ThinkingData ''Risk Analyst'' ''Analyzing transaction risk...''),
                 (''investigation_complete'', CompleteData r)], Inr r))"
  by (simp add: investigate_async_def graph_failed[OF assms] run_of_def Let_def)
     (simp add: initial_state_def)

lemma analyze_risk_raises:
  assumes "\<forall>p. isl (invoke e p)"
  shows "isl (analyze_risk e None t)"
proof -
  have *: "\<And>p f. isl (and_then (invoke e p) f)"
    using assms by (metis and_then_Inl isl_def)
  show ?thesis
    by (simp add: analyze_risk_def Let_def * split: prod.splits)
qed

text \<open>
  C2 (as amended). If the reasoning capability raises on every call, then for every
  transaction the assess operation itself raises (it returns no heuristic assessment),
  the Assessing stage absorbs that, and the run still completes with status
  \<open>completed\<close>: final decision REVIEW with the incomplete-analysis rationale, and no
  assessment, finding or outcome populated, whatever the heuristic score is.
\<close>

theorem capability_down_run_completes:
  assumes "\<forall>p. isl (invoke e p)"
  shows "isl (analyze_risk e None t)
         \<and> (\<exists>r. snd (investigate_async e t) = Inr r
                \<and> status r = ''completed''
                \<and> final_decision r = JStr ''REVIEW''
                \<and> decision_reason r = ''Manual review required due to incomplete analysis.''
                \<and> steps r = [''Final Decision: REVIEW'']
                \<and> risk_analysis r = None \<and> fraud_investigation r = None
                \<and> compliance_check r = None)"
proof -
  from analyze_risk_raises[OF assms]
  obtain err where "analyze_risk e None t = Inl err"
    by (auto simp: isl_def)
  then have h: "risk_analysis_step e t = Inl err"
    by (rule risk_analysis_step_Inl)
  show ?thesis
    using analyze_risk_raises[OF assms] by (simp add: investigate_async_failed[OF h] Let_def)
qed

lemma invoke_scripted_all_down: "\<forall>p. isl (invoke (scripted down down down) p)"
  by (simp add: down_def)

theorem capability_down_run_completes_witness:
  "(\<forall>p. isl (invoke (scripted down down down) p))
   \<and> isl (analyze_risk (scripted down down down) None tx_hot)
   \<and> map_sum id status (snd (investigate_async (scripted down down down) tx_hot)) =
       Inr ''completed''
   \<and> map_sum id final_decision (snd (investigate_async (scripted down down down) tx_hot)) =
       Inr (JStr ''REVIEW'')"
  using capability_down_run_completes[OF invoke_scripted_all_down, of tx_hot]
    invoke_scripted_all_down
  by auto

lemma heuristic_tx_hot: "fst (calculate_heuristic_risk tx_hot) = 8/10"
  by (simp add: calculate_heuristic_risk_def tx_hot_def Let_def)

theorem assess_no_heuristic_fallback_counterexample:
  "fst (calculate_heuristic_risk tx_hot) = 8/10
   \<and> analyze_risk (scripted down down down) None tx_hot =
       Inl (InvokeError ''Could not connect to the endpoint URL'')
   \<and> map_sum id risk_analysis (snd (investigate_async (scripted down down down) tx_hot)) =
       Inr None"
proof -
  have a: "analyze_risk (scripted down down down) None tx_hot =
             Inl (InvokeError ''Could not connect to the endpoint URL'')"
    by (rule analyze_risk_invoke_raises) (simp add: down_def)
  from investigate_async_failed[OF risk_analysis_step_Inl[OF a]] a heuristic_tx_hot
  show ?thesis by (simp add: Let_def)
qed

subsection \<open>The nodes\<close>

lemma fraud_step_not_Nil:
  "fraud_investigation_step e st = Inr (fi, m) \<Longrightarrow> fi \<noteq> []"
  by (auto simp: fraud_investigation_step_def Let_def and_then_eq_Inr dict_item_def
      split: option.splits)

lemma fraud_node_present:
  "present (fraud_investigation (snd (fraud_investigation_node e st)))"
  by (auto simp: fraud_investigation_node_def Let_def dest: fraud_step_not_Nil
      split: sum.splits)

lemma fraud_node_frame:
  "risk_analysis (snd (fraud_investigation_node e st)) = risk_analysis st"
  "compliance_check (snd (fraud_investigation_node e st)) = compliance_check st"
  "transaction (snd (fraud_investigation_node e st)) = transaction st"
  by (auto simp: fraud_investigation_node_def Let_def split: sum.splits)

lemma fraud_node_events:
  "\<exists>evs. fst (fraud_investigation_node e st) =
     (''agent_thinking'',
      ThinkingData ''Fraud Investigator'' ''Investigating suspicious activity...'') # evs"
  by (auto simp: fraud_investigation_node_def Let_def split: sum.splits)

lemma compliance_step_not_Nil:
  "compliance_check_step e st = Inr (cc, m) \<Longrightarrow> cc \<noteq> []"
  by (auto simp: compliance_check_step_def Let_def and_then_eq_Inr dict_item_def
      split: option.splits)

lemma compliance_node_present:
  "present (compliance_check (snd (compliance_check_node e st)))"
  by (auto simp: compliance_check_node_def Let_def dest: compliance_step_not_Nil
      split: sum.splits)

lemma compliance_node_frame:
  "risk_analysis (snd (compliance_check_node e st)) = risk_analysis st"
  "fraud_investigation (snd (compliance_check_node e st)) = fraud_investigation st"
  "transaction (snd (compliance_check_node e st)) = transaction st"
  by (auto simp: compliance_check_node_def Let_def split: sum.splits)

lemma compliance_node_events:
  "\<exists>evs. fst (compliance_check_node e st) =
     (''agent_thinking'',
      ThinkingData ''Compliance Officer'' ''Checking regulatory requirements...'') # evs"
  by (auto simp: compliance_check_node_def Let_def split: sum.splits)

lemma finalize_frame:
  assumes "finalize_node e st = Inr st'"
  shows "risk_analysis st' = risk_analysis st"
    and "fraud_investigation st' = fraud_investigation st"
    and "compliance_check st' = compliance_check st"
    and "status st' = ''completed''"
    and "steps st' = steps st @ [''Final Decision: '' @ py_str e (final_decision st')]"
  using assms
  by (auto simp: finalize_node_def Let_def and_then_eq_Inr split: prod.splits)

lemma run_of_fields [simp]:
  "risk_analysis (run_of st) = risk_analysis st"
  "fraud_investigation (run_of st) = fraud_investigation st"
  "compliance_check (run_of st) = compliance_check st"
  "status (run_of st) = status st"
  "steps (run_of st) = steps st"
  "final_decision (run_of st) = final_decision st"
  "decision_reason (run_of st) = decision_reason st"
  by (simp_all add: run_of_def)

lemma investigate_async_alt:
  "investigate_async e t =
     ((''investigation_start'', StartData (transaction_id t))
        # fst (graph_invoke e (initial_state e t))
        @ (case snd (graph_invoke e (initial_state e t)) of
             Inl err \<Rightarrow> []
           | Inr st \<Rightarrow> [(''investigation_complete'', CompleteData (run_of st))]),
      map_sum id run_of (snd (graph_invoke e (initial_state e t))))"
  by (simp add: investigate_async_def Let_def split: prod.splits sum.splits)

subsection \<open>The sample collaborators\<close>

lemma invoke_scripted [simp]:
  "invoke (scripted r f c) (RiskPrompt t a b) = r"
  "invoke (scripted r f c) (FraudPrompt t v a b) = f"
  "invoke (scripted r f c) (CompliancePrompt t x y z) = c"
  "json_loads (scripted r f c) = sample_loads"
  "py_repr (scripted r f c) = sample_repr"
  "now (scripted r f c) = ''2026-01-11T10:00:00''"
  by (simp_all add: scripted_def)

lemma short_not_deep: "length s < 100000 \<Longrightarrow> s \<noteq> deep_text"
  by (auto simp: deep_text_def)

lemma parse_prose:
  "parse_json_response (scripted r f c) ''I cannot answer in JSON.'' =
     Inr (JObj [(''raw_response'', JStr ''I cannot answer in JSON.''),
                (''parse_error'', JStr ''Expecting value: line 1 column 1 (char 0)'')])"
  by (simp add: parse_json_response_def sample_loads_def json_table_def json_str_def
      contains_def strip_def is_space_def short_not_deep)

lemma analyze_risk_object:
  assumes "invoke e (RiskPrompt t (fmt_fixed 3 False (fst (calculate_heuristic_risk t)))
              (patterns_text (identify_patterns t (fst (calculate_heuristic_risk t)))))
             = Inr response"
    and "parse_json_response e response = Inr (JObj d)"
  shows "\<exists>ra. analyze_risk e None t = Inr ra"
  using assms by (simp add: analyze_risk_def Let_def case_prod_beta)

lemma risk_step_prose:
  "\<exists>ra msg. risk_analysis_step (scripted prose f c) t = Inr (ra, msg)"
proof -
  have "\<exists>ra. analyze_risk (scripted prose f c) None t = Inr ra"
    by (rule analyze_risk_object[where response = "''I cannot answer in JSON.''"])
       (simp_all add: prose_def parse_prose)
  then obtain ra0 where "analyze_risk (scripted prose f c) None t = Inr ra0" ..
  from risk_analysis_step_Inr[OF this] show ?thesis by blast
qed

lemma heuristic_tx_edge: "fst (calculate_heuristic_risk tx_edge) = 4/10"
  by (simp add: calculate_heuristic_risk_def tx_edge_def Let_def)

subsection \<open>The branch\<close>

lemma graph_escalated_nodes:
  assumes "risk_analysis_step e t = Inr (ra, msg)"
    and "4/10 < fst (calculate_heuristic_risk t)"
  shows "\<exists>ev2 ev3 st3.
           graph_invoke e (initial_state e t) =
             ([(''agent_thinking'', ThinkingData ''Risk Analyst'' ''Analyzing transaction risk...''),
               (''agent_result'', ResultData ''Risk Analyst'' ra),
               (''agent_thinking'',
                ThinkingData ''Fraud Investigator'' ''Investigating suspicious activity...'')]
              @ ev2
              @ [(''agent_thinking'',
                  ThinkingData ''Compliance Officer'' ''Checking regulatory requirements...'')]
              @ ev3,
              finalize_node e st3)
           \<and> risk_analysis st3 = Some ra
           \<and> present (fraud_investigation st3) \<and> present (compliance_check st3)"
proof -
  define st1 where "st1 = (initial_state e t)\<lparr>risk_analysis := Some ra, steps := [msg]\<rparr>"
  define n2 where "n2 = fraud_investigation_node e st1"
  define n3 where "n3 = compliance_check_node e (snd n2)"
  have g: "graph_invoke e (initial_state e t) =
             ([(''agent_thinking'', ThinkingData ''Risk Analyst'' ''Analyzing transaction risk...''),
               (''agent_result'', ResultData ''Risk Analyst'' ra)] @ fst n2 @ fst n3,
              finalize_node e (snd n3))"
    by (simp add: graph_escalated[OF assms] Let_def st1_def n2_def n3_def case_prod_beta)
  obtain ev2 where e2: "fst n2 =
      (''agent_thinking'',
       ThinkingData ''Fraud Investigator'' ''Investigating suspicious activity...'') # ev2"
    unfolding n2_def using fraud_node_events by blast
  obtain ev3 where e3: "fst n3 =
      (''agent_thinking'',
       ThinkingData ''Compliance Officer'' ''Checking regulatory requirements...'') # ev3"
    unfolding n3_def using compliance_node_events by blast
  have r: "risk_analysis (snd n3) = Some ra"
    by (simp add: n3_def n2_def compliance_node_frame fraud_node_frame st1_def)
  have f: "present (fraud_investigation (snd n3))"
    by (simp add: n3_def n2_def compliance_node_frame fraud_node_present)
  have c: "present (compliance_check (snd n3))"
    by (simp add: n3_def compliance_node_present)
  show ?thesis
    using g e2 e3 r f c by auto
qed

text \<open>
  C3. Whenever the Assessing stage succeeds: a risk score strictly above 0.40 takes the
  run through Investigating and Reviewing (their \<open>agent_thinking\<close> events are emitted),
  the state handed to Finalizing has both the finding and the compliance outcome, and so
  has every run returned; a score of at most 0.40, 0.40 itself included, goes straight
  to Finalizing: only the assessor's events precede the terminal event, and the returned
  run has neither field.
\<close>

theorem branch_correctness:
  assumes "risk_analysis_step e t = Inr (ra, msg)"
  shows "(4/10 < fst (calculate_heuristic_risk t) \<longrightarrow>
            (''agent_thinking'',
             ThinkingData ''Fraud Investigator'' ''Investigating suspicious activity...'')
              \<in> set (fst (investigate_async e t))
          \<and> (''agent_thinking'',
              ThinkingData ''Compliance Officer'' ''Checking regulatory requirements...'')
              \<in> set (fst (investigate_async e t))
          \<and> (\<exists>st. present (fraud_investigation st) \<and> present (compliance_check st)
                 \<and> snd (graph_invoke e (initial_state e t)) = finalize_node e st)
          \<and> (\<forall>r. snd (investigate_async e t) = Inr r \<longrightarrow>
                 present (fraud_investigation r) \<and> present (compliance_check r)))
       \<and> (fst (calculate_heuristic_risk t) \<le> 4/10 \<longrightarrow>
            map fst (fst (investigate_async e t)) =
              [''investigation_start'', ''agent_thinking'', ''agent_result'',
               ''investigation_complete'']
          \<and> (\<exists>r. snd (investigate_async e t) = Inr r
                 \<and> risk_analysis r = Some ra
                 \<and> fraud_investigation r = None \<and> compliance_check r = None))"
proof (intro conjI impI)
  assume hi: "4/10 < fst (calculate_heuristic_risk t)"
  from graph_escalated_nodes[OF assms hi]
  obtain ev2 ev3 st3 where
    g: "graph_invoke e (initial_state e t) =
             ([(''agent_thinking'', ThinkingData ''Risk Analyst'' ''Analyzing transaction risk...''),
               (''agent_result'', ResultData ''Risk Analyst'' ra),
               (''agent_thinking'',
                ThinkingData ''Fraud Investigator'' ''Investigating suspicious activity...'')]
              @ ev2
              @ [(''agent_thinking'',
                  ThinkingData ''Compliance Officer'' ''Checking regulatory requirements...'')]
              @ ev3,
              finalize_node e st3)"
    and f: "present (fraud_investigation st3)" and c: "present (compliance_check st3)"
    by blast
  show "(''agent_thinking'',
         ThinkingData ''Fraud Investigator'' ''Investigating suspicious activity...'')
          \<in> set (fst (investigate_async e t))"
    by (simp add: investigate_async_alt g)
  show "(''agent_thinking'',
         ThinkingData ''Compliance Officer'' ''Checking regulatory requirements...'')
          \<in> set (fst (investigate_async e t))"
    by (simp add: investigate_async_alt g)
  show "\<exists>st. present (fraud_investigation st) \<and> present (compliance_check st)
          \<and> snd (graph_invoke e (initial_state e t)) = finalize_node e st"
    using g f c by auto
  show "\<forall>r. snd (investigate_async e t) = Inr r \<longrightarrow>
          present (fraud_investigation r) \<and> present (compliance_check r)"
  proof (intro allI impI)
    fix r assume "snd (investigate_async e t) = Inr r"
    then obtain st' where fin: "finalize_node e st3 = Inr st'" and r: "r = run_of st'"
      by (cases "finalize_node e st3") (auto simp: investigate_async_alt g)
    show "present (fraud_investigation r) \<and> present (compliance_check r)"
      using f c by (simp add: r finalize_frame[OF fin])
  qed
next
  assume lo: "fst (calculate_heuristic_risk t) \<le> 4/10"
  note g = graph_skip[OF assms lo]
  show "map fst (fst (investigate_async e t)) =
          [''investigation_start'', ''agent_thinking'', ''agent_result'',
           ''investigation_complete'']"
    by (simp add: investigate_async_alt g)
  show "\<exists>r. snd (investigate_async e t) = Inr r
          \<and> risk_analysis r = Some ra
          \<and> fraud_investigation r = None \<and> compliance_check r = None"
    by (simp add: investigate_async_alt g)
qed

theorem branch_correctness_witness:
  "\<not> isl (risk_analysis_step (scripted prose prose prose) tx_hot)
   \<and> 4/10 < fst (calculate_heuristic_risk tx_hot)
   \<and> (''agent_thinking'',
       ThinkingData ''Fraud Investigator'' ''Investigating suspicious activity...'')
        \<in> set (fst (investigate_async (scripted prose prose prose) tx_hot))
   \<and> (''agent_thinking'',
       ThinkingData ''Compliance Officer'' ''Checking regulatory requirements...'')
        \<in> set (fst (investigate_async (scripted prose prose prose) tx_hot))
   \<and> \<not> isl (risk_analysis_step (scripted prose prose prose) tx_edge)
   \<and> fst (calculate_heuristic_risk tx_edge) = 4/10
   \<and> map fst (fst (investigate_async (scripted prose prose prose) tx_edge)) =
       [''investigation_start'', ''agent_thinking'', ''agent_result'',
        ''investigation_complete'']
   \<and> map_sum id fraud_investigation
        (snd (investigate_async (scripted prose prose prose) tx_edge)) = Inr None"
proof -
  obtain ra msg where
    h: "risk_analysis_step (scripted prose prose prose) tx_hot = Inr (ra, msg)"
    using risk_step_prose by blast
  obtain ra' msg' where
    h': "risk_analysis_step (scripted prose prose prose) tx_edge = Inr (ra', msg')"
    using risk_step_prose by blast
  from branch_correctness[OF h] branch_correctness[OF h'] h h'
  show ?thesis
    by (auto simp: heuristic_tx_hot heuristic_tx_edge)
qed

subsection \<open>The tie at 0.40\<close>

lemma heuristic_factors_not_Nil:
  assumes "fst (calculate_heuristic_risk t) \<noteq> 0"
  shows "factors (snd (calculate_heuristic_risk t)) \<noteq> []"
  using assms
  by (cases "amount t < 1"; cases "5000 < amount t";
      cases "hour t \<in> set [0, 1, 2, 3, 4, 23]";
      cases "location t \<in> set [''Unknown'', ''Foreign'', ''VPN'', ''Proxy'']";
      cases "merchant_category t
                  \<in> set [''Gift Cards'', ''Crypto'', ''Wire Transfer'', ''Electronics'',
                         ''Jewelry'']";
      cases "5 < (case velocity t of None \<Rightarrow> 1 | Some v \<Rightarrow> v)")
     (simp_all add: calculate_heuristic_risk_def Let_def del: set_simps)

lemma explanation_medium:
  assumes "factors b \<noteq> []"
  shows "\<exists>x. generate_explanation (4/10) b ps = ''Medium risk'' @ x @ ''Escalating for investigation.''"
  using assms
  by (simp add: generate_explanation_def score_to_level_def Let_def)

lemma analyze_risk_explanation:
  assumes "analyze_risk e None t = Inr ra"
  shows "\<exists>ps. map_of ra ''explanation'' =
           Some (JStr (generate_explanation (fst (calculate_heuristic_risk t))
                   ((snd (calculate_heuristic_risk t))\<lparr>scoring_method := ''Heuristic''\<rparr>) ps))"
  using assms
  by (auto simp: analyze_risk_def Let_def and_then_eq_Inr set_item_eq_Inr map_of_dict_set
      case_prod_beta)

lemma risk_analysis_step_explanation:
  assumes "risk_analysis_step e t = Inr (ra, msg)"
  shows "map_of ra ''escalated'' = Some (JBool (4/10 < fst (calculate_heuristic_risk t)))"
    and "\<exists>ps. map_of ra ''explanation'' =
           Some (JStr (generate_explanation (fst (calculate_heuristic_risk t))
                   ((snd (calculate_heuristic_risk t))\<lparr>scoring_method := ''Heuristic''\<rparr>) ps))"
proof -
  obtain ra0 where a: "analyze_risk e None t = Inr ra0"
    using assms by (cases "analyze_risk e None t") (auto simp: risk_analysis_step_def)
  from risk_analysis_step_Inr[OF a] assms
  obtain why where ra: "ra = dict_set (dict_set ra0 ''routing_reason'' (JStr why)) ''escalated''
                  (JBool (4/10 < fst (calculate_heuristic_risk t)))"
    by auto
  show "map_of ra ''escalated'' = Some (JBool (4/10 < fst (calculate_heuristic_risk t)))"
    by (simp add: ra map_of_dict_set)
  from analyze_risk_explanation[OF a]
  show "\<exists>ps. map_of ra ''explanation'' =
           Some (JStr (generate_explanation (fst (calculate_heuristic_risk t))
                   ((snd (calculate_heuristic_risk t))\<lparr>scoring_method := ''Heuristic''\<rparr>) ps))"
    by (simp add: ra map_of_dict_set)
qed

text \<open>
  C10. There is a transaction whose heuristic score is exactly 0.40: a large amount at
  an unusual hour with nothing else triggered. For every transaction with that score
  whose assessment succeeds, the level is Medium, the edge takes \<open>approve\<close> and the
  assessment is marked not escalated, yet its explanation, which opens with
  \<open>Medium risk\<close>, ends with \<open>Escalating for investigation.\<close>; the run returns with
  decision APPROVE and neither finding nor compliance outcome.
\<close>

theorem threshold_tie:
  "(\<exists>t. fst (calculate_heuristic_risk t) = 4/10 \<and> 5000 < amount t
        \<and> hour t \<in> set [0, 1, 2, 3, 4, 23]
        \<and> map name (factors (snd (calculate_heuristic_risk t))) =
            [''Large transaction'', ''Unusual hours''])
   \<and> (\<forall>t e ra msg.
        fst (calculate_heuristic_risk t) = 4/10 \<and> risk_analysis_step e t = Inr (ra, msg) \<longrightarrow>
          score_to_level (fst (calculate_heuristic_risk t)) = ''Medium''
        \<and> should_investigate (Some ra) = Inr ''approve''
        \<and> map_of ra ''escalated'' = Some (JBool False)
        \<and> (\<exists>x. map_of ra ''explanation'' = Some (JStr x)
               \<and> prefix ''Medium risk'' x \<and> suffix ''Escalating for investigation.'' x)
        \<and> (\<exists>r. snd (investigate_async e t) = Inr r
               \<and> final_decision r = JStr ''APPROVE''
               \<and> fraud_investigation r = None \<and> compliance_check r = None))"
proof (intro conjI allI impI)
  show "\<exists>t. fst (calculate_heuristic_risk t) = 4/10 \<and> 5000 < amount t
          \<and> hour t \<in> set [0, 1, 2, 3, 4, 23]
          \<and> map name (factors (snd (calculate_heuristic_risk t))) =
              [''Large transaction'', ''Unusual hours'']"
    by (rule exI[of _ tx_edge]) (simp add: calculate_heuristic_risk_def tx_edge_def Let_def)
next
  fix t e ra msg
  assume "fst (calculate_heuristic_risk t) = 4/10 \<and> risk_analysis_step e t = Inr (ra, msg)"
  then have s: "fst (calculate_heuristic_risk t) = 4/10"
    and h: "risk_analysis_step e t = Inr (ra, msg)"
    by auto
  show "score_to_level (fst (calculate_heuristic_risk t)) = ''Medium''"
    by (simp add: s score_to_level_def)
  show "should_investigate (Some ra) = Inr ''approve''"
    using should_investigate_score[OF risk_analysis_step_score(1)[OF h]] by (simp add: s)
  show "map_of ra ''escalated'' = Some (JBool False)"
    using risk_analysis_step_explanation(1)[OF h] by (simp add: s)
  show "\<exists>x. map_of ra ''explanation'' = Some (JStr x)
          \<and> prefix ''Medium risk'' x \<and> suffix ''Escalating for investigation.'' x"
  proof -
    have "factors ((snd (calculate_heuristic_risk t))\<lparr>scoring_method := ''Heuristic''\<rparr>) \<noteq> []"
      using heuristic_factors_not_Nil[of t] by (simp add: s)
    from explanation_medium[OF this] risk_analysis_step_explanation(2)[OF h]
    obtain x where x: "map_of ra ''explanation'' =
        Some (JStr (''Medium risk'' @ x @ ''Escalating for investigation.''))"
      unfolding s by (metis (no_types))
    have p: "prefix ''Medium risk'' (''Medium risk'' @ x @ ''Escalating for investigation.'')"
      by (rule prefixI) (rule refl)
    have q: "suffix ''Escalating for investigation.''
               (''Medium risk'' @ x @ ''Escalating for investigation.'')"
      by (rule suffixI[of _ "''Medium risk'' @ x"]) simp
    from x p q show ?thesis by blast
  qed
  show "\<exists>r. snd (investigate_async e t) = Inr r
          \<and> final_decision r = JStr ''APPROVE''
          \<and> fraud_investigation r = None \<and> compliance_check r = None"
    using graph_skip[OF h] by (simp add: investigate_async_alt s)
qed

theorem threshold_tie_witness:
  "fst (calculate_heuristic_risk tx_edge) = 4/10
   \<and> \<not> isl (risk_analysis_step (scripted prose prose prose) tx_edge)
   \<and> score_to_level (fst (calculate_heuristic_risk tx_edge)) = ''Medium''
   \<and> map_sum id final_decision (snd (investigate_async (scripted prose prose prose) tx_edge)) =
       Inr (JStr ''APPROVE'')
   \<and> map_sum id fraud_investigation
       (snd (investigate_async (scripted prose prose prose) tx_edge)) = Inr None"
proof -
  obtain ra msg where
    h: "risk_analysis_step (scripted prose prose prose) tx_edge = Inr (ra, msg)"
    using risk_step_prose by blast
  from threshold_tie h heuristic_tx_edge
  have "score_to_level (fst (calculate_heuristic_risk tx_edge)) = ''Medium''
        \<and> (\<exists>r. snd (investigate_async (scripted prose prose prose) tx_edge) = Inr r
               \<and> final_decision r = JStr ''APPROVE''
               \<and> fraud_investigation r = None \<and> compliance_check r = None)"
    by blast
  with h heuristic_tx_edge show ?thesis by auto
qed

subsection \<open>The compliance review\<close>

lemma map_of_setdefault_append:
  assumes "setdefault_append d k v = Inr d'" and "k' \<noteq> k"
  shows "map_of d' k' = map_of d k'"
  using assms
  by (auto simp: setdefault_append_def map_of_dict_set map_add_def
      split: option.splits json.splits)

lemma check_compliance_flags:
  assumes "check_compliance e t fi = Inr cc"
  shows "\<exists>response d.
           invoke e (CompliancePrompt t
             (py_str e (dict_get fi ''recommendation'' (JStr ''N/A'')))
             (py_str e (dict_get fi ''fraud_likelihood'' (JStr ''N/A'')))
             (py_str e (dict_get fi ''confidence'' (JStr ''N/A'')))) = Inr response
         \<and> parse_json_response e response = Inr (JObj d)
         \<and> map_of cc ''ctr_required'' =
             Some (if 10000 < amount t then JBool True
                   else dict_get d ''ctr_required'' (JBool False))
         \<and> map_of cc ''sar_required'' =
             Some (if 5000 < amount t
                      \<and> dict_get fi ''fraud_likelihood'' (JStr ''Low'')
                          \<in> set [JStr ''Medium'', JStr ''High'']
                   then JBool True
                   else dict_get d ''sar_required'' (JBool False))"
proof -
  define lik where "lik = dict_get fi ''fraud_likelihood'' (JStr ''Low'')"
  from assms obtain response r0 r1 r2 d3 summary where
    inv: "invoke e (CompliancePrompt t
             (py_str e (dict_get fi ''recommendation'' (JStr ''N/A'')))
             (py_str e (dict_get fi ''fraud_likelihood'' (JStr ''N/A'')))
             (py_str e (dict_get fi ''confidence'' (JStr ''N/A'')))) = Inr response"
    and p0: "parse_json_response e response = Inr r0"
    and s1: "(if 10000 < amount t then
              and_then (set_item r0 ''ctr_required'' (JBool True))
                (\<lambda>d. and_then (py_in ''ctr_required'' (dict_get d ''regulatory_actions'' (JArr [])))
                (\<lambda>listed.
              if \<not> listed then
                and_then (setdefault_append d ''regulatory_actions''
                            (JStr ''File Currency Transaction Report (CTR) - amount exceeds $10,000''))
                  (\<lambda>d. Inr (JObj d))
              else Inr (JObj d)))
            else Inr r0) = Inr r1"
    and s2: "(if 5000 < amount t \<and> lik \<in> set [JStr ''Medium'', JStr ''High''] then
                  and_then (set_item r1 ''sar_required'' (JBool True)) (\<lambda>d.
                  Inr (JObj (setdefault d ''sar_reason''
                         (JStr (''Suspicious transaction over $5,000 with ''
                                @ py_str e lik @ '' fraud likelihood'')))))
                else Inr r1) = Inr r2"
    and s3: "setdefault_item r2 ''sar_required'' (JBool False) = Inr d3"
    and cc: "cc = dict_set
               (dict_set
                 (setdefault (setdefault (setdefault (setdefault (setdefault (setdefault
                   (setdefault d3 ''ctr_required'' (JBool False))
                   ''sar_reason'' (JStr [])) ''aml_violations'' (JArr []))
                   ''kyc_flags'' (JArr [])) ''regulatory_actions'' (JArr []))
                   ''compliance_notes'' (JStr [])) ''risk_rating'' (JStr ''Low''))
                 ''agent'' (JStr ''Compliance Officer''))
               ''compliance_summary'' (JStr summary)"
    unfolding check_compliance_def Let_def lik_def and_then_eq_Inr by blast
  from s3 obtain d2 where r2: "r2 = JObj d2"
    and d3: "d3 = setdefault d2 ''sar_required'' (JBool False)"
    by (auto simp: setdefault_item_eq_Inr)
  have ctr_cc: "map_of cc ''ctr_required'' =
                  Some (case map_of d2 ''ctr_required'' of None \<Rightarrow> JBool False | Some v \<Rightarrow> v)"
    by (simp add: cc d3 map_of_dict_set map_of_setdefault split: option.splits)
  have sar_cc: "map_of cc ''sar_required'' =
                  Some (case map_of d2 ''sar_required'' of None \<Rightarrow> JBool False | Some v \<Rightarrow> v)"
    by (simp add: cc d3 map_of_dict_set map_of_setdefault split: option.splits)
  from s2 r2 obtain d1 where r1: "r1 = JObj d1"
    and ctr2: "map_of d2 ''ctr_required'' = map_of d1 ''ctr_required''"
    and sar2: "map_of d2 ''sar_required'' =
                 (if 5000 < amount t \<and> lik \<in> set [JStr ''Medium'', JStr ''High'']
                  then Some (JBool True) else map_of d1 ''sar_required'')"
    by (auto simp: and_then_eq_Inr set_item_eq_Inr map_of_dict_set map_of_setdefault
        split: if_splits)
  from s1 r1 p0 obtain d where p: "parse_json_response e response = Inr (JObj d)"
    and ctr1: "map_of d1 ''ctr_required'' =
                 (if 10000 < amount t then Some (JBool True) else map_of d ''ctr_required'')"
    and sar1: "map_of d1 ''sar_required'' = map_of d ''sar_required''"
    by (auto simp: and_then_eq_Inr set_item_eq_Inr map_of_dict_set map_of_setdefault_append
        split: if_splits)
  show ?thesis
    using inv p ctr_cc sar_cc ctr2 sar2 ctr1 sar1
    by (auto simp: dict_get_def lik_def)
qed


lemma py_len_list_or_absent:
  assumes "list_or_absent d k"
  shows "\<exists>n. py_len (dict_get d k (JArr [])) = Inr n"
  using assms
  by (cases "map_of d k") (auto simp: list_or_absent_def dict_get_def split: json.splits)

lemma list_or_absent_cong:
  "map_of d' k = map_of d k \<Longrightarrow> list_or_absent d' k = list_or_absent d k"
  by (simp add: list_or_absent_def)

lemma summary_returns:
  assumes "list_or_absent r ''aml_violations''" and "list_or_absent r ''kyc_flags''"
  shows "\<exists>s. generate_compliance_summary e r t fi = Inr s"
proof -
  from py_len_list_or_absent[OF assms(1)] obtain n
    where n: "py_len (dict_get r ''aml_violations'' (JArr [])) = Inr n" ..
  from py_len_list_or_absent[OF assms(2)] obtain m
    where m: "py_len (dict_get r ''kyc_flags'' (JArr [])) = Inr m" ..
  show ?thesis
    by (simp add: generate_compliance_summary_def Let_def n m)
qed

lemma ctr_rule_returns:
  assumes "list_or_absent d ''regulatory_actions''"
  shows "\<exists>d1. and_then (set_item (JObj d) ''ctr_required'' (JBool True)) (\<lambda>d.
              and_then (py_in ''ctr_required'' (dict_get d ''regulatory_actions'' (JArr [])))
                (\<lambda>listed.
              if \<not> listed then
                and_then (setdefault_append d ''regulatory_actions'' v)
                  (\<lambda>d. Inr (JObj d))
              else Inr (JObj d))) = Inr (JObj d1)
            \<and> map_of d1 ''aml_violations'' = map_of d ''aml_violations''
            \<and> map_of d1 ''kyc_flags'' = map_of d ''kyc_flags''"
proof (cases "map_of d ''regulatory_actions''")
  case None
  then show ?thesis
    by (auto simp: dict_get_def map_of_dict_set setdefault_append_def map_add_def
        split: option.splits)
next
  case (Some a)
  with assms obtain xs where a: "a = JArr xs"
    by (cases a) (auto simp: list_or_absent_def)
  show ?thesis
    using Some
    by (auto simp: a dict_get_def map_of_dict_set setdefault_append_def map_add_def
        split: option.splits)
qed

lemma check_compliance_returns:
  assumes inv: "invoke e (CompliancePrompt t
             (py_str e (dict_get fi ''recommendation'' (JStr ''N/A'')))
             (py_str e (dict_get fi ''fraud_likelihood'' (JStr ''N/A'')))
             (py_str e (dict_get fi ''confidence'' (JStr ''N/A'')))) = Inr response"
    and p: "parse_json_response e response = Inr (JObj d)"
    and l: "list_or_absent d ''regulatory_actions''" "list_or_absent d ''aml_violations''"
      "list_or_absent d ''kyc_flags''"
  shows "\<exists>cc. check_compliance e t fi = Inr cc"
proof -
  define v where
    "v = JStr ''File Currency Transaction Report (CTR) - amount exceeds $10,000''"
  define lik where "lik = dict_get fi ''fraud_likelihood'' (JStr ''Low'')"
  obtain d1 where s1:
    "(if 10000 < amount t then
        and_then (set_item (JObj d) ''ctr_required'' (JBool True)) (\<lambda>d.
        and_then (py_in ''ctr_required'' (dict_get d ''regulatory_actions'' (JArr [])))
          (\<lambda>listed.
        if \<not> listed then
          and_then (setdefault_append d ''regulatory_actions'' v) (\<lambda>d. Inr (JObj d))
        else Inr (JObj d)))
      else Inr (JObj d)) = Inr (JObj d1)"
    and a1: "map_of d1 ''aml_violations'' = map_of d ''aml_violations''"
    and k1: "map_of d1 ''kyc_flags'' = map_of d ''kyc_flags''"
    using ctr_rule_returns[OF l(1), of v] by (cases "10000 < amount t") auto
  define d2 where
    "d2 = (if 5000 < amount t \<and> lik \<in> set [JStr ''Medium'', JStr ''High'']
           then setdefault (dict_set d1 ''sar_required'' (JBool True)) ''sar_reason''
                  (JStr (''Suspicious transaction over $5,000 with ''
                         @ py_str e lik @ '' fraud likelihood''))
           else d1)"
  have s2: "(if 5000 < amount t \<and> lik \<in> set [JStr ''Medium'', JStr ''High''] then
               and_then (set_item (JObj d1) ''sar_required'' (JBool True)) (\<lambda>d.
               Inr (JObj (setdefault d ''sar_reason''
                      (JStr (''Suspicious transaction over $5,000 with ''
                             @ py_str e lik @ '' fraud likelihood'')))))
             else Inr (JObj d1)) = Inr (JObj d2)"
    by (auto simp: d2_def)
  have a2: "map_of d2 ''aml_violations'' = map_of d ''aml_violations''"
    and k2: "map_of d2 ''kyc_flags'' = map_of d ''kyc_flags''"
    by (simp_all add: d2_def a1 k1 map_of_dict_set map_of_setdefault)
  define result where
    "result = dict_set
       (setdefault (setdefault (setdefault (setdefault (setdefault (setdefault (setdefault
         (setdefault d2 ''sar_required'' (JBool False))
         ''ctr_required'' (JBool False))
         ''sar_reason'' (JStr [])) ''aml_violations'' (JArr []))
         ''kyc_flags'' (JArr [])) ''regulatory_actions'' (JArr []))
         ''compliance_notes'' (JStr [])) ''risk_rating'' (JStr ''Low''))
       ''agent'' (JStr ''Compliance Officer'')"
  have "list_or_absent result ''aml_violations''" and "list_or_absent result ''kyc_flags''"
    using l(2,3)
    by (auto simp: result_def list_or_absent_def map_of_dict_set map_of_setdefault a2 k2
        split: option.splits)
  from summary_returns[OF this] obtain summary
    where sm: "generate_compliance_summary e result t fi = Inr summary" ..
  show ?thesis
    using s1 s2 sm
    unfolding check_compliance_def Let_def inv p v_def lik_def result_def and_then_Inr
    by simp
qed

lemma parse_sample:
  "map_of json_table txt = Some (Inr v) \<Longrightarrow>
   parse_json_response (scripted r f c) txt = Inr v"
  by (simp add: parse_json_response_def sample_loads_def)

lemma scripted_flags:
  assumes p: "parse_json_response (scripted r f (Inr txt)) txt = Inr (JObj d)"
    and l: "list_or_absent d ''regulatory_actions''" "list_or_absent d ''aml_violations''"
      "list_or_absent d ''kyc_flags''"
  shows "outcome_flag ''ctr_required'' (check_compliance (scripted r f (Inr txt)) t fi) =
           Some (if 10000 < amount t then JBool True
                 else dict_get d ''ctr_required'' (JBool False))"
    and "outcome_flag ''sar_required'' (check_compliance (scripted r f (Inr txt)) t fi) =
           Some (if 5000 < amount t
                    \<and> dict_get fi ''fraud_likelihood'' (JStr ''Low'')
                        \<in> set [JStr ''Medium'', JStr ''High'']
                 then JBool True
                 else dict_get d ''sar_required'' (JBool False))"
proof -
  obtain cc where cc: "check_compliance (scripted r f (Inr txt)) t fi = Inr cc"
    using check_compliance_returns[OF _ p l, of t fi] by auto
  from check_compliance_flags[OF cc] p
  show "outcome_flag ''ctr_required'' (check_compliance (scripted r f (Inr txt)) t fi) =
           Some (if 10000 < amount t then JBool True
                 else dict_get d ''ctr_required'' (JBool False))"
    and "outcome_flag ''sar_required'' (check_compliance (scripted r f (Inr txt)) t fi) =
           Some (if 5000 < amount t
                    \<and> dict_get fi ''fraud_likelihood'' (JStr ''Low'')
                        \<in> set [JStr ''Medium'', JStr ''High'']
                 then JBool True
                 else dict_get d ''sar_required'' (JBool False))"
    by (auto simp: cc outcome_flag_def)
qed

lemma compliance_node_fallback:
  assumes "transaction st = t" and "fraud_investigation st = Some fi" and "fi \<noteq> []"
    and "check_compliance e t fi = Inl err"
  shows "compliance_check (snd (compliance_check_node e st)) =
           Some [(''sar_required'', JBool False),
                 (''compliance_notes'',
                  JStr (''Compliance check error: '' @ str_of_error err))]"
  using assms
  by (simp add: compliance_check_node_def compliance_check_step_def Let_def)

text \<open>
  C4 (as amended). Whenever the compliance review itself returns an outcome, that
  outcome has \<open>ctr_required\<close> true if the amount exceeds 10,000 and \<open>sar_required\<close>
  true if the amount exceeds 5,000 and the finding's fraud likelihood is Medium or High,
  whatever the capability answered. The review returns at least when the capability's
  text parses (or degrades) to an object whose \<open>regulatory_actions\<close>,
  \<open>aml_violations\<close> and \<open>kyc_flags\<close> are lists or missing. When the review raises
  (the capability raises, or its text is not such an object), the stage records the
  fallback outcome: \<open>sar_required\<close> false and no \<open>ctr_required\<close> at all.
\<close>

theorem statutory_rules_when_review_returns:
  "(\<forall>cc. check_compliance e t fi = Inr cc \<longrightarrow>
       (10000 < amount t \<longrightarrow> map_of cc ''ctr_required'' = Some (JBool True))
     \<and> (5000 < amount t
          \<and> dict_get fi ''fraud_likelihood'' (JStr ''Low'') \<in> set [JStr ''Medium'', JStr ''High'']
        \<longrightarrow> map_of cc ''sar_required'' = Some (JBool True)))
   \<and> (\<forall>response d.
         invoke e (CompliancePrompt t
             (py_str e (dict_get fi ''recommendation'' (JStr ''N/A'')))
             (py_str e (dict_get fi ''fraud_likelihood'' (JStr ''N/A'')))
             (py_str e (dict_get fi ''confidence'' (JStr ''N/A'')))) = Inr response
         \<and> parse_json_response e response = Inr (JObj d)
         \<and> list_or_absent d ''regulatory_actions'' \<and> list_or_absent d ''aml_violations''
         \<and> list_or_absent d ''kyc_flags''
       \<longrightarrow> \<not> isl (check_compliance e t fi))
   \<and> (\<forall>st err.
         transaction st = t \<and> fraud_investigation st = Some fi \<and> fi \<noteq> []
         \<and> check_compliance e t fi = Inl err
       \<longrightarrow> compliance_check (snd (compliance_check_node e st)) =
             Some [(''sar_required'', JBool False),
                   (''compliance_notes'',
                    JStr (''Compliance check error: '' @ str_of_error err))])"
proof (intro conjI allI impI)
  fix cc assume cc: "check_compliance e t fi = Inr cc"
  { assume "10000 < amount t"
    with check_compliance_flags[OF cc]
    show "map_of cc ''ctr_required'' = Some (JBool True)" by auto }
  { assume "5000 < amount t
          \<and> dict_get fi ''fraud_likelihood'' (JStr ''Low'') \<in> set [JStr ''Medium'', JStr ''High'']"
    with check_compliance_flags[OF cc]
    show "map_of cc ''sar_required'' = Some (JBool True)" by auto }
next
  fix response d
  assume "invoke e (CompliancePrompt t
             (py_str e (dict_get fi ''recommendation'' (JStr ''N/A'')))
             (py_str e (dict_get fi ''fraud_likelihood'' (JStr ''N/A'')))
             (py_str e (dict_get fi ''confidence'' (JStr ''N/A'')))) = Inr response
         \<and> parse_json_response e response = Inr (JObj d)
         \<and> list_or_absent d ''regulatory_actions'' \<and> list_or_absent d ''aml_violations''
         \<and> list_or_absent d ''kyc_flags''"
  then show "\<not> isl (check_compliance e t fi)"
    using check_compliance_returns[of e t fi response d] by auto
next
  fix st :: investigation_state and err
  assume "transaction st = t \<and> fraud_investigation st = Some fi \<and> fi \<noteq> []
         \<and> check_compliance e t fi = Inl err"
  then show "compliance_check (snd (compliance_check_node e st)) =
             Some [(''sar_required'', JBool False),
                   (''compliance_notes'',
                    JStr (''Compliance check error: '' @ str_of_error err))]"
    using compliance_node_fallback by blast
qed

lemma degraded_lists:
  "list_or_absent [(''raw_response'', x), (''parse_error'', y)] ''regulatory_actions''"
  "list_or_absent [(''raw_response'', x), (''parse_error'', y)] ''aml_violations''"
  "list_or_absent [(''raw_response'', x), (''parse_error'', y)] ''kyc_flags''"
  by (simp_all add: list_or_absent_def)

theorem statutory_rules_when_review_returns_witness:
  "10000 < amount tx_hot
   \<and> dict_get high_finding ''fraud_likelihood'' (JStr ''Low'') = JStr ''High''
   \<and> \<not> isl (check_compliance (scripted prose prose prose) tx_hot high_finding)
   \<and> outcome_flag ''ctr_required''
       (check_compliance (scripted prose prose prose) tx_hot high_finding) = Some (JBool True)
   \<and> outcome_flag ''sar_required''
       (check_compliance (scripted prose prose prose) tx_hot high_finding) = Some (JBool True)"
proof -
  have a: "10000 < amount tx_hot" by (simp add: tx_hot_def)
  have f: "dict_get high_finding ''fraud_likelihood'' (JStr ''Low'') = JStr ''High''"
    by (simp add: high_finding_def dict_get_def)
  note th = statutory_rules_when_review_returns
    [of "scripted prose prose prose" tx_hot high_finding]
  have r: "\<not> isl (check_compliance (scripted prose prose prose) tx_hot high_finding)"
    using th parse_prose[of prose prose prose] degraded_lists
    by (auto simp: prose_def)
  then obtain cc where
    cc: "check_compliance (scripted prose prose prose) tx_hot high_finding = Inr cc"
    by (cases "check_compliance (scripted prose prose prose) tx_hot high_finding") auto
  from th cc a f have "map_of cc ''ctr_required'' = Some (JBool True)"
    and "map_of cc ''sar_required'' = Some (JBool True)"
    by auto
  with a f r show ?thesis by (simp add: cc outcome_flag_def)
qed

theorem statutory_rules_counterexample:
  "10000 < amount tx_hot
   \<and> dict_get high_finding ''fraud_likelihood'' (JStr ''Low'') = JStr ''High''
   \<and> check_compliance (scripted prose prose (Inr ''[]'')) tx_hot high_finding =
       Inl (TypeError ''list indices must be integers or slices, not str'')
   \<and> compliance_check
       (snd (compliance_check_node (scripted prose prose (Inr ''[]''))
          ((initial_state (scripted prose prose (Inr ''[]'')) tx_hot)
             \<lparr>fraud_investigation := Some high_finding\<rparr>))) =
       Some [(''sar_required'', JBool False),
             (''compliance_notes'',
              JStr ''Compliance check error: list indices must be integers or slices, not str'')]"
proof -
  have a: "10000 < amount tx_hot" by (simp add: tx_hot_def)
  have f: "dict_get high_finding ''fraud_likelihood'' (JStr ''Low'') = JStr ''High''"
    by (simp add: high_finding_def dict_get_def)
  have p: "parse_json_response (scripted prose prose (Inr ''[]'')) ''[]'' = Inr (JArr [])"
    by (rule parse_sample) (simp add: json_table_def)
  have c: "check_compliance (scripted prose prose (Inr ''[]'')) tx_hot high_finding =
             Inl (TypeError ''list indices must be integers or slices, not str'')"
    by (simp add: check_compliance_def Let_def p a)
  have n: "high_finding \<noteq> []" by (simp add: high_finding_def)
  from compliance_node_fallback[OF _ _ n c,
      of "(initial_state (scripted prose prose (Inr ''[]'')) tx_hot)
             \<lparr>fraud_investigation := Some high_finding\<rparr>"]
  show ?thesis using a f c by simp
qed

text \<open>
  C7 (as amended). The CTR and SAR flags of a returned compliance outcome are a function
  of the transaction amount, the finding's fraud likelihood and the capability's parsed
  response: \<open>ctr_required\<close> is true above 10,000 and otherwise the response's own
  \<open>ctr_required\<close> (false when it has none); \<open>sar_required\<close> is true above 5,000 with
  a Medium or High likelihood and otherwise the response's own \<open>sar_required\<close> (false
  when it has none). Two reviews of one pair agree whenever the capability answers alike.
\<close>

theorem compliance_flags_function:
  assumes "check_compliance e t fi = Inr cc"
  shows "\<exists>response d.
           invoke e (CompliancePrompt t
             (py_str e (dict_get fi ''recommendation'' (JStr ''N/A'')))
             (py_str e (dict_get fi ''fraud_likelihood'' (JStr ''N/A'')))
             (py_str e (dict_get fi ''confidence'' (JStr ''N/A'')))) = Inr response
         \<and> parse_json_response e response = Inr (JObj d)
         \<and> map_of cc ''ctr_required'' =
             Some (if 10000 < amount t then JBool True
                   else dict_get d ''ctr_required'' (JBool False))
         \<and> map_of cc ''sar_required'' =
             Some (if 5000 < amount t
                      \<and> dict_get fi ''fraud_likelihood'' (JStr ''Low'')
                          \<in> set [JStr ''Medium'', JStr ''High'']
                   then JBool True
                   else dict_get d ''sar_required'' (JBool False))"
  using assms by (rule check_compliance_flags)

lemma parse_sar_true:
  "parse_json_response (scripted r f c) ''{\"sar_required\": true}'' =
     Inr (JObj [(''sar_required'', JBool True)])"
  by (rule parse_sample) (simp add: json_table_def)

lemma parse_empty_object: "parse_json_response (scripted r f c) ''{}'' = Inr (JObj [])"
  by (rule parse_sample) (simp add: json_table_def)

theorem compliance_flags_function_witness:
  "\<not> isl (check_compliance (scripted prose prose (Inr ''{\"sar_required\": true}''))
            tx_quiet low_finding)
   \<and> amount tx_quiet = 50
   \<and> outcome_flag ''sar_required''
       (check_compliance (scripted prose prose (Inr ''{\"sar_required\": true}''))
          tx_quiet low_finding) = Some (JBool True)
   \<and> outcome_flag ''ctr_required''
       (check_compliance (scripted prose prose (Inr ''{\"sar_required\": true}''))
          tx_quiet low_finding) = Some (JBool False)"
proof -
  obtain cc where cc:
    "check_compliance (scripted prose prose (Inr ''{\"sar_required\": true}''))
       tx_quiet low_finding = Inr cc"
    using check_compliance_returns[OF _ parse_sar_true, of prose prose _ tx_quiet low_finding]
    by (auto simp: list_or_absent_def)
  have a: "amount tx_quiet = 50" by (simp add: tx_quiet_def)
  have f: "dict_get low_finding ''fraud_likelihood'' (JStr ''Low'') = JStr ''Low''"
    by (simp add: low_finding_def dict_get_def)
  from compliance_flags_function[OF cc]
  have "map_of cc ''sar_required'' = Some (JBool True)"
    and "map_of cc ''ctr_required'' = Some (JBool False)"
    by (auto simp: parse_sar_true a f dict_get_def)
  then show ?thesis by (simp add: cc a outcome_flag_def)
qed

theorem compliance_flags_counterexample:
  "outcome_flag ''sar_required''
     (check_compliance (scripted prose prose (Inr ''{\"sar_required\": true}''))
        tx_quiet low_finding) = Some (JBool True)
   \<and> outcome_flag ''sar_required''
       (check_compliance (scripted prose prose (Inr ''{}'')) tx_quiet low_finding) =
       Some (JBool False)"
proof -
  have a: "amount tx_quiet = 50" by (simp add: tx_quiet_def)
  have f: "dict_get low_finding ''fraud_likelihood'' (JStr ''Low'') = JStr ''Low''"
    by (simp add: low_finding_def dict_get_def)
  have 1: "outcome_flag ''sar_required''
     (check_compliance (scripted prose prose (Inr ''{\"sar_required\": true}''))
        tx_quiet low_finding) = Some (JBool True)"
    by (subst scripted_flags(2)[OF parse_sar_true])
       (simp_all add: list_or_absent_def a f dict_get_def)
  have 2: "outcome_flag ''sar_required''
       (check_compliance (scripted prose prose (Inr ''{}'')) tx_quiet low_finding) =
       Some (JBool False)"
    by (subst scripted_flags(2)[OF parse_empty_object])
       (simp_all add: list_or_absent_def a f dict_get_def)
  from 1 2 show ?thesis by simp
qed

subsection \<open>The investigation\<close>

lemma list_all_is_str [simp]: "list_all is_str (map JStr ps)"
  by (induction ps) simp_all

lemma map_str_value [simp]: "map (str_value \<circ> JStr) ps = ps"
  by (induction ps) simp_all

lemma investigate_transaction_invoke:
  "investigate_transaction e t (JNum s) (JArr (map JStr ps)) =
     and_then (invoke e (FraudPrompt t
                 (case velocity t of None \<Rightarrow> ''N/A'' | Some v \<Rightarrow> show_int v)
                 (fmt_fixed 2 False s) (patterns_text ps))) (\<lambda>response.
     and_then (parse_json_response e response) (\<lambda>parsed.
     and_then (setdefault_item parsed ''fraud_likelihood'' (JStr ''Unknown'')) (\<lambda>result.
       Inr (dict_set
             (setdefault (setdefault (setdefault (setdefault (setdefault result
                ''recommendation'' (JStr ''REVIEW''))
                ''fraud_indicators'' (JArr []))
                ''explanation'' (JStr response))
                ''confidence'' (JNum (5/10)))
                ''suggested_actions'' (JArr []))
             ''agent'' (JStr ''Fraud Investigator'')))))"
  by (simp add: investigate_transaction_def patterns_text_def Let_def)

lemma fraud_step_after_assessment:
  assumes "risk_analysis st = Some ra"
    and "map_of ra ''risk_score'' = Some (JNum s)"
    and "map_of ra ''patterns'' = Some (JArr (map JStr ps))"
  shows "fraud_investigation_step e st =
           and_then (investigate_transaction e (transaction st) (JNum s) (JArr (map JStr ps)))
             (\<lambda>fi.
           and_then (dict_item fi ''recommendation'') (\<lambda>recommendation.
           and_then (dict_item fi ''fraud_likelihood'') (\<lambda>likelihood.
           Inr (fi, ''Fraud Investigator: '' @ py_str e recommendation @ '' (''
                    @ py_str e likelihood @ '' likelihood)''))))"
proof -
  from assms(2) have "ra \<noteq> []" by auto
  then show ?thesis
    using assms by (simp add: fraud_investigation_step_def Let_def dict_get_def)
qed

lemma fraud_node_invoke_raises:
  assumes "risk_analysis st = Some ra"
    and "map_of ra ''risk_score'' = Some (JNum s)"
    and "map_of ra ''patterns'' = Some (JArr (map JStr ps))"
    and "invoke e (FraudPrompt (transaction st)
                 (case velocity (transaction st) of None \<Rightarrow> ''N/A'' | Some v \<Rightarrow> show_int v)
                 (fmt_fixed 2 False s) (patterns_text ps)) = Inl err"
  shows "fraud_investigation_node e st =
           ([(''agent_thinking'',
              ThinkingData ''Fraud Investigator'' ''Investigating suspicious activity...'')],
            st\<lparr>fraud_investigation :=
                  Some [(''recommendation'', JStr ''REVIEW''),
                        (''fraud_likelihood'', JStr ''Unknown''),
                        (''explanation'', JStr (''Investigation error: '' @ str_of_error err))],
                steps := steps st @ [''Fraud Investigator: Error - '' @ str_of_error err]\<rparr>)"
  by (simp add: fraud_investigation_node_def fraud_step_after_assessment[OF assms(1-3)]
      investigate_transaction_invoke assms(4))

lemma fraud_node_parsed:
  assumes "risk_analysis st = Some ra"
    and "map_of ra ''risk_score'' = Some (JNum s)"
    and "map_of ra ''patterns'' = Some (JArr (map JStr ps))"
    and "invoke e (FraudPrompt (transaction st)
                 (case velocity (transaction st) of None \<Rightarrow> ''N/A'' | Some v \<Rightarrow> show_int v)
                 (fmt_fixed 2 False s) (patterns_text ps)) = Inr response"
    and "parse_json_response e response = Inr (JObj d)"
  shows "\<exists>m. fraud_investigation_node e st =
           ([(''agent_thinking'',
              ThinkingData ''Fraud Investigator'' ''Investigating suspicious activity...''),
             (''agent_result'', ResultData ''Fraud Investigator''
                (dict_set
                  (setdefault (setdefault (setdefault (setdefault (setdefault
                     (setdefault d ''fraud_likelihood'' (JStr ''Unknown''))
                     ''recommendation'' (JStr ''REVIEW''))
                     ''fraud_indicators'' (JArr []))
                     ''explanation'' (JStr response))
                     ''confidence'' (JNum (5/10)))
                     ''suggested_actions'' (JArr []))
                  ''agent'' (JStr ''Fraud Investigator'')))],
            st\<lparr>fraud_investigation :=
                  Some (dict_set
                  (setdefault (setdefault (setdefault (setdefault (setdefault
                     (setdefault d ''fraud_likelihood'' (JStr ''Unknown''))
                     ''recommendation'' (JStr ''REVIEW''))
                     ''fraud_indicators'' (JArr []))
                     ''explanation'' (JStr response))
                     ''confidence'' (JNum (5/10)))
                     ''suggested_actions'' (JArr []))
                  ''agent'' (JStr ''Fraud Investigator'')),
                steps := steps st @ [m]\<rparr>)"
  by (auto simp: fraud_investigation_node_def fraud_step_after_assessment[OF assms(1-3)]
      investigate_transaction_invoke assms(4,5) dict_item_def map_of_dict_set
      map_of_setdefault split: option.splits)

lemma degraded_finding:
  "dict_set
     (setdefault (setdefault (setdefault (setdefault (setdefault
        (setdefault [(''raw_response'', JStr response), (''parse_error'', JStr msg)]
           ''fraud_likelihood'' (JStr ''Unknown''))
        ''recommendation'' (JStr ''REVIEW''))
        ''fraud_indicators'' (JArr []))
        ''explanation'' (JStr response))
        ''confidence'' (JNum (5/10)))
        ''suggested_actions'' (JArr []))
     ''agent'' (JStr ''Fraud Investigator'') =
   [(''raw_response'', JStr response), (''parse_error'', JStr msg),
    (''fraud_likelihood'', JStr ''Unknown''), (''recommendation'', JStr ''REVIEW''),
    (''fraud_indicators'', JArr []), (''explanation'', JStr response),
    (''confidence'', JNum (5/10)), (''suggested_actions'', JArr []),
    (''agent'', JStr ''Fraud Investigator'')]"
  by (simp add: setdefault_def)

lemma parse_degraded:
  assumes "json_loads e response = Inl (JSONDecodeError m1)"
    and "json_loads e (json_str response) = Inl (JSONDecodeError m2)"
  shows "parse_json_response e response =
           Inr (JObj [(''raw_response'', JStr response), (''parse_error'', JStr m2)])"
  using assms by (simp add: parse_json_response_def)

subsection \<open>Finalizing\<close>

lemma finalize_decision_of_finding:
  assumes "finalize_node e st = Inr st'" and "fraud_investigation st = Some fi" and "fi \<noteq> []"
  shows "final_decision st' = dict_get fi ''recommendation'' (JStr ''REVIEW'')"
  using assms
  by (auto simp: finalize_node_def Let_def and_then_eq_Inr)

lemma finalize_neither_approve_nor_decline:
  assumes "fraud_investigation st = Some fi" and "fi \<noteq> []"
    and "dict_get fi ''recommendation'' (JStr ''REVIEW'') \<noteq> JStr ''APPROVE''"
    and "dict_get fi ''recommendation'' (JStr ''REVIEW'') \<noteq> JStr ''DECLINE''"
    and "risk_analysis st = Some ra" and "map_of ra ''risk_score'' = Some (JNum s)"
  shows "\<exists>st'. finalize_node e st = Inr st'"
proof -
  from assms(6) have "ra \<noteq> []" by auto
  then show ?thesis
    using assms
    by (simp add: finalize_node_def build_decision_reason_def Let_def dict_get_def)
qed

subsection \<open>Escalated runs\<close>

lemma run_with_finding:
  assumes h: "risk_analysis_step e t = Inr (ra, msg)"
    and hi: "4/10 < fst (calculate_heuristic_risk t)"
    and fi: "fraud_investigation
               (snd (fraud_investigation_node e
                  ((initial_state e t)\<lparr>risk_analysis := Some ra, steps := [msg]\<rparr>))) = Some fi"
    and rec: "dict_get fi ''recommendation'' (JStr ''REVIEW'') \<noteq> JStr ''APPROVE''"
      "dict_get fi ''recommendation'' (JStr ''REVIEW'') \<noteq> JStr ''DECLINE''"
  shows "\<exists>r. snd (investigate_async e t) = Inr r \<and> status r = ''completed''
           \<and> final_decision r = dict_get fi ''recommendation'' (JStr ''REVIEW'')
           \<and> risk_analysis r = Some ra
           \<and> fraud_investigation r = Some fi \<and> present (compliance_check r)"
proof -
  define st1 where "st1 = (initial_state e t)\<lparr>risk_analysis := Some ra, steps := [msg]\<rparr>"
  define n2 where "n2 = fraud_investigation_node e st1"
  define n3 where "n3 = compliance_check_node e (snd n2)"
  have g: "snd (graph_invoke e (initial_state e t)) = finalize_node e (snd n3)"
    by (simp add: graph_escalated[OF h hi] Let_def st1_def n2_def n3_def case_prod_beta)
  have f3: "fraud_investigation (snd n3) = Some fi"
    using fi by (simp add: n3_def n2_def st1_def compliance_node_frame)
  have ne: "fi \<noteq> []"
    using fraud_node_present[of e st1] fi by (simp add: st1_def)
  have r3: "risk_analysis (snd n3) = Some ra"
    by (simp add: n3_def n2_def st1_def compliance_node_frame fraud_node_frame)
  have c3: "present (compliance_check (snd n3))"
    by (simp add: n3_def compliance_node_present)
  from finalize_neither_approve_nor_decline
    [OF f3 ne rec r3 risk_analysis_step_score(1)[OF h]]
  obtain st' where fin: "finalize_node e (snd n3) = Inr st'" by blast
  show ?thesis
    using finalize_frame[OF fin] finalize_decision_of_finding[OF fin f3 ne] f3 r3 c3
    by (simp add: investigate_async_alt g fin)
qed

lemma fraud_node_step_raises:
  assumes "risk_analysis st = Some ra"
    and "map_of ra ''risk_score'' = Some (JNum s)"
    and "map_of ra ''patterns'' = Some (JArr (map JStr ps))"
    and "investigate_transaction e (transaction st) (JNum s) (JArr (map JStr ps)) = Inl err"
  shows "fraud_investigation (snd (fraud_investigation_node e st)) =
           Some [(''recommendation'', JStr ''REVIEW''),
                 (''fraud_likelihood'', JStr ''Unknown''),
                 (''explanation'', JStr (''Investigation error: '' @ str_of_error err))]"
  by (simp add: fraud_investigation_node_def fraud_step_after_assessment[OF assms(1-3)]
      assms(4))

lemma setdefault_item_not_object:
  "\<not> is_object v \<Longrightarrow>
   setdefault_item v k x =
     Inl (AttributeError (quoted (type_name v) @ '' object has no attribute ''
                          @ quoted ''setdefault''))"
  by (cases v) simp_all

lemma run_investigator_fails:
  assumes h: "risk_analysis_step e t = Inr (ra, msg)"
    and hi: "4/10 < fst (calculate_heuristic_risk t)"
    and f: "investigate_transaction e t
              (JNum (fst (calculate_heuristic_risk t)))
              (JArr (map JStr (identify_patterns t (fst (calculate_heuristic_risk t))))) = Inl err"
  shows "\<exists>r. snd (investigate_async e t) = Inr r \<and> status r = ''completed''
           \<and> final_decision r = JStr ''REVIEW''
           \<and> fraud_investigation r =
               Some [(''recommendation'', JStr ''REVIEW''),
                     (''fraud_likelihood'', JStr ''Unknown''),
                     (''explanation'', JStr (''Investigation error: '' @ str_of_error err))]"
proof -
  have "fraud_investigation
          (snd (fraud_investigation_node e
             ((initial_state e t)\<lparr>risk_analysis := Some ra, steps := [msg]\<rparr>))) =
        Some [(''recommendation'', JStr ''REVIEW''),
              (''fraud_likelihood'', JStr ''Unknown''),
              (''explanation'', JStr (''Investigation error: '' @ str_of_error err))]"
    using fraud_node_step_raises[OF _ risk_analysis_step_score[OF h],
        of "(initial_state e t)\<lparr>risk_analysis := Some ra, steps := [msg]\<rparr>" e err] f
    by simp
  from run_with_finding[OF h hi this]
  show ?thesis by (auto simp: dict_get_def)
qed

lemma run_investigator_degraded:
  assumes h: "risk_analysis_step e t = Inr (ra, msg)"
    and hi: "4/10 < fst (calculate_heuristic_risk t)"
    and inv: "\<forall>v a b. invoke e (FraudPrompt t v a b) = Inr response"
    and l1: "json_loads e response = Inl (JSONDecodeError m1)"
    and l2: "json_loads e (json_str response) = Inl (JSONDecodeError m2)"
  shows "\<exists>r. snd (investigate_async e t) = Inr r \<and> status r = ''completed''
           \<and> final_decision r = JStr ''REVIEW''
           \<and> fraud_investigation r =
               Some [(''raw_response'', JStr response), (''parse_error'', JStr m2),
                     (''fraud_likelihood'', JStr ''Unknown''),
                     (''recommendation'', JStr ''REVIEW''),
                     (''fraud_indicators'', JArr []),
                     (''explanation'', JStr response),
                     (''confidence'', JNum (5/10)),
                     (''suggested_actions'', JArr []),
                     (''agent'', JStr ''Fraud Investigator'')]"
proof -
  have p: "parse_json_response e response =
             Inr (JObj [(''raw_response'', JStr response), (''parse_error'', JStr m2)])"
    using l1 l2 by (rule parse_degraded)
  have "fraud_investigation
          (snd (fraud_investigation_node e
             ((initial_state e t)\<lparr>risk_analysis := Some ra, steps := [msg]\<rparr>))) =
          Some [(''raw_response'', JStr response), (''parse_error'', JStr m2),
                     (''fraud_likelihood'', JStr ''Unknown''),
                     (''recommendation'', JStr ''REVIEW''),
                     (''fraud_indicators'', JArr []),
                     (''explanation'', JStr response),
                     (''confidence'', JNum (5/10)),
                     (''suggested_actions'', JArr []),
                     (''agent'', JStr ''Fraud Investigator'')]"
    using fraud_node_parsed[OF _ risk_analysis_step_score[OF h] _ p,
        of "(initial_state e t)\<lparr>risk_analysis := Some ra, steps := [msg]\<rparr>"] inv
    unfolding degraded_finding by auto
  from run_with_finding[OF h hi this]
  show ?thesis by (auto simp: dict_get_def)
qed

text \<open>
  C6 (as amended). In an escalated run, whatever request texts the investigator sends:
  when \<open>json.loads\<close> rejects the capability's answer as no JSON, on the raw text and on
  the extracted text, the recorded finding is the documented fallback: likelihood
  Unknown, recommendation REVIEW, explanation the raw text, confidence 0.5, empty
  indicator and action lists (beside the raw text and the parse-error marker). When the
  call itself raises, when \<open>json.loads\<close> raises any other exception, or when the answer
  parses to a value that is not an object, the stage records a smaller fallback:
  recommendation REVIEW, likelihood Unknown and the explanation
  \<open>Investigation error: ...\<close> with the error's text, and neither confidence nor lists.
  None of these failures is fatal: the run returns with status \<open>completed\<close> and
  decision REVIEW.
\<close>

theorem investigator_failure_fallback:
  assumes "risk_analysis_step e t = Inr (ra, msg)"
    and "4/10 < fst (calculate_heuristic_risk t)"
    and "\<forall>v a b. invoke e (FraudPrompt t v a b) = answer"
  shows "(\<forall>response m1 m2.
            answer = Inr response
            \<and> json_loads e response = Inl (JSONDecodeError m1)
            \<and> json_loads e (json_str response) = Inl (JSONDecodeError m2)
          \<longrightarrow> (\<exists>r. snd (investigate_async e t) = Inr r \<and> status r = ''completed''
                 \<and> final_decision r = JStr ''REVIEW''
                 \<and> fraud_investigation r =
                     Some [(''raw_response'', JStr response), (''parse_error'', JStr m2),
                           (''fraud_likelihood'', JStr ''Unknown''),
                           (''recommendation'', JStr ''REVIEW''),
                           (''fraud_indicators'', JArr []),
                           (''explanation'', JStr response),
                           (''confidence'', JNum (5/10)),
                           (''suggested_actions'', JArr []),
                           (''agent'', JStr ''Fraud Investigator'')]))
       \<and> (\<forall>err.
            answer = Inl err
          \<longrightarrow> (\<exists>r. snd (investigate_async e t) = Inr r \<and> status r = ''completed''
                 \<and> final_decision r = JStr ''REVIEW''
                 \<and> fraud_investigation r =
                     Some [(''recommendation'', JStr ''REVIEW''),
                           (''fraud_likelihood'', JStr ''Unknown''),
                           (''explanation'',
                            JStr (''Investigation error: '' @ str_of_error err))]))
       \<and> (\<forall>response err.
            answer = Inr response \<and> parse_json_response e response = Inl err
          \<longrightarrow> (\<exists>r. snd (investigate_async e t) = Inr r \<and> status r = ''completed''
                 \<and> final_decision r = JStr ''REVIEW''
                 \<and> fraud_investigation r =
                     Some [(''recommendation'', JStr ''REVIEW''),
                           (''fraud_likelihood'', JStr ''Unknown''),
                           (''explanation'',
                            JStr (''Investigation error: '' @ str_of_error err))]))
       \<and> (\<forall>response v.
            answer = Inr response \<and> parse_json_response e response = Inr v
            \<and> \<not> is_object v
          \<longrightarrow> (\<exists>r msg. snd (investigate_async e t) = Inr r \<and> status r = ''completed''
                 \<and> final_decision r = JStr ''REVIEW''
                 \<and> fraud_investigation r =
                     Some [(''recommendation'', JStr ''REVIEW''),
                           (''fraud_likelihood'', JStr ''Unknown''),
                           (''explanation'', JStr (''Investigation error: '' @ msg))]))"
proof (intro conjI allI impI)
  fix response m1 m2
  assume "answer = Inr response
            \<and> json_loads e response = Inl (JSONDecodeError m1)
            \<and> json_loads e (json_str response) = Inl (JSONDecodeError m2)"
  with assms(3) run_investigator_degraded[OF assms(1,2), of response m1 m2]
  show "\<exists>r. snd (investigate_async e t) = Inr r \<and> status r = ''completed''
                 \<and> final_decision r = JStr ''REVIEW''
                 \<and> fraud_investigation r =
                     Some [(''raw_response'', JStr response), (''parse_error'', JStr m2),
                           (''fraud_likelihood'', JStr ''Unknown''),
                           (''recommendation'', JStr ''REVIEW''),
                           (''fraud_indicators'', JArr []),
                           (''explanation'', JStr response),
                           (''confidence'', JNum (5/10)),
                           (''suggested_actions'', JArr []),
                           (''agent'', JStr ''Fraud Investigator'')]"
    by simp
next
  fix err
  assume "answer = Inl err"
  with assms(3) have "investigate_transaction e t
              (JNum (fst (calculate_heuristic_risk t)))
              (JArr (map JStr (identify_patterns t (fst (calculate_heuristic_risk t))))) = Inl err"
    by (simp add: investigate_transaction_invoke)
  from run_investigator_fails[OF assms(1,2) this]
  show "\<exists>r. snd (investigate_async e t) = Inr r \<and> status r = ''completed''
                 \<and> final_decision r = JStr ''REVIEW''
                 \<and> fraud_investigation r =
                     Some [(''recommendation'', JStr ''REVIEW''),
                           (''fraud_likelihood'', JStr ''Unknown''),
                           (''explanation'',
                            JStr (''Investigation error: '' @ str_of_error err))]" .
next
  fix response err
  assume "answer = Inr response \<and> parse_json_response e response = Inl err"
  with assms(3) have "investigate_transaction e t
              (JNum (fst (calculate_heuristic_risk t)))
              (JArr (map JStr (identify_patterns t (fst (calculate_heuristic_risk t))))) = Inl err"
    by (simp add: investigate_transaction_invoke)
  from run_investigator_fails[OF assms(1,2) this]
  show "\<exists>r. snd (investigate_async e t) = Inr r \<and> status r = ''completed''
                 \<and> final_decision r = JStr ''REVIEW''
                 \<and> fraud_investigation r =
                     Some [(''recommendation'', JStr ''REVIEW''),
                           (''fraud_likelihood'', JStr ''Unknown''),
                           (''explanation'',
                            JStr (''Investigation error: '' @ str_of_error err))]" .
next
  fix response v
  assume "answer = Inr response \<and> parse_json_response e response = Inr v
            \<and> \<not> is_object v"
  with assms(3) have "investigate_transaction e t
              (JNum (fst (calculate_heuristic_risk t)))
              (JArr (map JStr (identify_patterns t (fst (calculate_heuristic_risk t))))) =
            Inl (AttributeError (quoted (type_name v) @ '' object has no attribute ''
                          @ quoted ''setdefault''))"
    by (simp add: investigate_transaction_invoke setdefault_item_not_object)
  from run_investigator_fails[OF assms(1,2) this]
  show "\<exists>r msg. snd (investigate_async e t) = Inr r \<and> status r = ''completed''
                 \<and> final_decision r = JStr ''REVIEW''
                 \<and> fraud_investigation r =
                     Some [(''recommendation'', JStr ''REVIEW''),
                           (''fraud_likelihood'', JStr ''Unknown''),
                           (''explanation'', JStr (''Investigation error: '' @ msg))]"
    by auto
qed

lemma loads_prose:
  "json_loads (scripted r f c) ''I cannot answer in JSON.'' =
     Inl (JSONDecodeError ''Expecting value: line 1 column 1 (char 0)'')"
  "json_loads (scripted r f c) (json_str ''I cannot answer in JSON.'') =
     Inl (JSONDecodeError ''Expecting value: line 1 column 1 (char 0)'')"
  by (simp_all add: sample_loads_def json_table_def json_str_def contains_def strip_def
      is_space_def short_not_deep)

lemma parse_array: "parse_json_response (scripted r f c) ''[]'' = Inr (JArr [])"
  by (rule parse_sample) (simp add: json_table_def)

lemma deep_not_short: "length s < 100000 \<Longrightarrow> deep_text \<noteq> s"
  by (auto simp: deep_text_def)

lemma parse_deep:
  "parse_json_response (scripted r f c) deep_text =
     Inl (RecursionError
            ''maximum recursion depth exceeded while decoding a JSON array from a unicode string'')"
  by (simp add: parse_json_response_def sample_loads_def json_table_def deep_not_short)

theorem investigator_failure_fallback_witness:
  "\<not> isl (risk_analysis_step (scripted prose prose prose) tx_hot)
   \<and> 4/10 < fst (calculate_heuristic_risk tx_hot)
   \<and> map_sum id status (snd (investigate_async (scripted prose prose prose) tx_hot)) =
       Inr ''completed''
   \<and> map_sum id fraud_investigation
       (snd (investigate_async (scripted prose prose prose) tx_hot)) =
       Inr (Some [(''raw_response'', JStr ''I cannot answer in JSON.''),
                  (''parse_error'', JStr ''Expecting value: line 1 column 1 (char 0)''),
                  (''fraud_likelihood'', JStr ''Unknown''),
                  (''recommendation'', JStr ''REVIEW''),
                  (''fraud_indicators'', JArr []),
                  (''explanation'', JStr ''I cannot answer in JSON.''),
                  (''confidence'', JNum (5/10)),
                  (''suggested_actions'', JArr []),
                  (''agent'', JStr ''Fraud Investigator'')])
   \<and> map_sum id status
       (snd (investigate_async (scripted prose (Inr ''[]'') prose) tx_hot)) = Inr ''completed''
   \<and> map_sum id (map_option (map fst) \<circ> fraud_investigation)
       (snd (investigate_async (scripted prose (Inr ''[]'') prose) tx_hot)) =
       Inr (Some [''recommendation'', ''fraud_likelihood'', ''explanation''])
   \<and> map_sum id fraud_investigation
       (snd (investigate_async (scripted prose (Inr deep_text) prose) tx_hot)) =
       Inr (Some [(''recommendation'', JStr ''REVIEW''),
                  (''fraud_likelihood'', JStr ''Unknown''),
                  (''explanation'',
                   JStr ''Investigation error: maximum recursion depth exceeded while decoding a JSON array from a unicode string'')])"
proof -
  have hi: "4/10 < fst (calculate_heuristic_risk tx_hot)"
    by (simp add: heuristic_tx_hot)
  obtain ra msg where
    h: "risk_analysis_step (scripted prose prose prose) tx_hot = Inr (ra, msg)"
    using risk_step_prose by blast
  have a: "\<forall>v a b. invoke (scripted prose prose prose) (FraudPrompt tx_hot v a b) =
             Inr ''I cannot answer in JSON.''"
    by (simp add: prose_def)
  from investigator_failure_fallback[OF h hi a] loads_prose[of prose prose prose]
  have 1: "\<exists>r. snd (investigate_async (scripted prose prose prose) tx_hot) = Inr r
          \<and> status r = ''completed''
          \<and> fraud_investigation r =
              Some [(''raw_response'', JStr ''I cannot answer in JSON.''),
                  (''parse_error'', JStr ''Expecting value: line 1 column 1 (char 0)''),
                  (''fraud_likelihood'', JStr ''Unknown''),
                  (''recommendation'', JStr ''REVIEW''),
                  (''fraud_indicators'', JArr []),
                  (''explanation'', JStr ''I cannot answer in JSON.''),
                  (''confidence'', JNum (5/10)),
                  (''suggested_actions'', JArr []),
                  (''agent'', JStr ''Fraud Investigator'')]"
    by auto
  obtain ra2 msg2 where
    h2: "risk_analysis_step (scripted prose (Inr ''[]'') prose) tx_hot = Inr (ra2, msg2)"
    using risk_step_prose by blast
  have a2: "\<forall>v a b. invoke (scripted prose (Inr ''[]'') prose) (FraudPrompt tx_hot v a b) =
             Inr ''[]''"
    by simp
  from investigator_failure_fallback[OF h2 hi a2] parse_array[of prose "Inr ''[]''" prose]
  have 2: "\<exists>r msg. snd (investigate_async (scripted prose (Inr ''[]'') prose) tx_hot) = Inr r
          \<and> status r = ''completed''
          \<and> fraud_investigation r =
              Some [(''recommendation'', JStr ''REVIEW''),
                  (''fraud_likelihood'', JStr ''Unknown''),
                  (''explanation'', JStr (''Investigation error: '' @ msg))]"
    by auto
  obtain ra3 msg3 where
    h3: "risk_analysis_step (scripted prose (Inr deep_text) prose) tx_hot = Inr (ra3, msg3)"
    using risk_step_prose by blast
  have a3: "\<forall>v a b. invoke (scripted prose (Inr deep_text) prose) (FraudPrompt tx_hot v a b) =
             Inr deep_text"
    by simp
  from investigator_failure_fallback[OF h3 hi a3] parse_deep[of prose "Inr deep_text" prose]
  have 3: "\<exists>r. snd (investigate_async (scripted prose (Inr deep_text) prose) tx_hot) = Inr r
          \<and> fraud_investigation r =
              Some [(''recommendation'', JStr ''REVIEW''),
                  (''fraud_likelihood'', JStr ''Unknown''),
                  (''explanation'',
                   JStr ''Investigation error: maximum recursion depth exceeded while decoding a JSON array from a unicode string'')]"
    by auto
  from 1 2 3 h hi show ?thesis by auto
qed

theorem investigator_raises_counterexample:
  "\<not> isl (risk_analysis_step (scripted prose down prose) tx_hot)
   \<and> 4/10 < fst (calculate_heuristic_risk tx_hot)
   \<and> map_sum id fraud_investigation
       (snd (investigate_async (scripted prose down prose) tx_hot)) =
       Inr (Some [(''recommendation'', JStr ''REVIEW''),
                  (''fraud_likelihood'', JStr ''Unknown''),
                  (''explanation'',
                   JStr ''Investigation error: Could not connect to the endpoint URL'')])"
proof -
  obtain ra msg where
    h: "risk_analysis_step (scripted prose down prose) tx_hot = Inr (ra, msg)"
    using risk_step_prose by blast
  have hi: "4/10 < fst (calculate_heuristic_risk tx_hot)"
    by (simp add: heuristic_tx_hot)
  have "investigate_transaction (scripted prose down prose) tx_hot
              (JNum (fst (calculate_heuristic_risk tx_hot)))
              (JArr (map JStr (identify_patterns tx_hot (fst (calculate_heuristic_risk tx_hot)))))
          = Inl (InvokeError ''Could not connect to the endpoint URL'')"
    by (simp add: investigate_transaction_invoke down_def)
  from run_investigator_fails[OF h hi this]
  have "\<exists>r. snd (investigate_async (scripted prose down prose) tx_hot) = Inr r
          \<and> fraud_investigation r =
              Some [(''recommendation'', JStr ''REVIEW''),
                  (''fraud_likelihood'', JStr ''Unknown''),
                  (''explanation'',
                   JStr ''Investigation error: Could not connect to the endpoint URL'')]"
    by auto
  with h hi show ?thesis by auto
qed

subsection \<open>Returned runs\<close>

lemma run_cases:
  obtains (failed) err where "risk_analysis_step e t = Inl err"
  | (skip) ra msg where "risk_analysis_step e t = Inr (ra, msg)"
      "fst (calculate_heuristic_risk t) \<le> 4/10"
  | (escalated) ra msg where "risk_analysis_step e t = Inr (ra, msg)"
      "4/10 < fst (calculate_heuristic_risk t)"
  by (cases "risk_analysis_step e t"; cases "4/10 < fst (calculate_heuristic_risk t)") auto

lemma returned_run:
  assumes "snd (investigate_async e t) = Inr r"
  shows "status r = ''completed''
         \<and> (if present (fraud_investigation r)
             then final_decision r =
                    dict_get (or_empty (fraud_investigation r)) ''recommendation'' (JStr ''REVIEW'')
             else if present (risk_analysis r)
             then final_decision r = JStr ''APPROVE''
                  \<and> fst (calculate_heuristic_risk t) \<le> 4/10
             else final_decision r = JStr ''REVIEW'')"
proof (cases rule: run_cases[of e t])
  case (failed err)
  from investigate_async_failed[OF this] assms show ?thesis
    by (auto simp: Let_def)
next
  case (skip ra msg)
  from risk_analysis_step_score(1)[OF skip(1)] have "ra \<noteq> []" by auto
  with graph_skip[OF skip] assms skip(2) show ?thesis
    by (auto simp: investigate_async_alt)
next
  case (escalated ra msg)
  from graph_escalated_nodes[OF escalated]
  obtain st3 where g: "snd (graph_invoke e (initial_state e t)) = finalize_node e st3"
    and f: "present (fraud_investigation st3)"
    by auto
  from assms obtain st' where fin: "finalize_node e st3 = Inr st'" and r: "r = run_of st'"
    by (cases "finalize_node e st3") (auto simp: investigate_async_alt g)
  from f obtain fi where fi: "fraud_investigation st3 = Some fi" "fi \<noteq> []"
    by (cases "fraud_investigation st3") auto
  show ?thesis
    using finalize_frame[OF fin] finalize_decision_of_finding[OF fin fi] fi
    by (simp add: r)
qed

lemma escalated_run_result:
  assumes "risk_analysis_step e t = Inr (ra, msg)"
    and "4/10 < fst (calculate_heuristic_risk t)"
  shows "snd (investigate_async e t) =
           map_sum id run_of
             (finalize_node e
                (snd (compliance_check_node e
                   (snd (fraud_investigation_node e
                      ((initial_state e t)\<lparr>risk_analysis := Some ra, steps := [msg]\<rparr>))))))"
  by (simp add: investigate_async_alt graph_escalated[OF assms] Let_def case_prod_beta)

lemma failed_run_finding:
  assumes "isl (snd (investigate_async e t))"
  shows "\<exists>ra msg fi.
           risk_analysis_step e t = Inr (ra, msg)
           \<and> 4/10 < fst (calculate_heuristic_risk t)
           \<and> fraud_investigation
               (snd (fraud_investigation_node e
                  ((initial_state e t)\<lparr>risk_analysis := Some ra, steps := [msg]\<rparr>))) = Some fi
           \<and> dict_get fi ''recommendation'' (JStr ''REVIEW'')
                \<in> set [JStr ''APPROVE'', JStr ''DECLINE'']
           \<and> isl (finalize_node e
                (snd (compliance_check_node e
                   (snd (fraud_investigation_node e
                      ((initial_state e t)\<lparr>risk_analysis := Some ra, steps := [msg]\<rparr>))))))"
proof (cases rule: run_cases[of e t])
  case (failed err)
  from investigate_async_failed[OF this] assms show ?thesis
    by (simp add: Let_def)
next
  case (skip ra msg)
  with graph_skip[OF skip] assms show ?thesis
    by (simp add: investigate_async_alt)
next
  case (escalated ra msg)
  define st1 where "st1 = (initial_state e t)\<lparr>risk_analysis := Some ra, steps := [msg]\<rparr>"
  define n2 where "n2 = fraud_investigation_node e st1"
  define n3 where "n3 = compliance_check_node e (snd n2)"
  have g: "snd (investigate_async e t) = map_sum id run_of (finalize_node e (snd n3))"
    by (simp add: escalated_run_result[OF escalated] st1_def n2_def n3_def)
  have "present (fraud_investigation (snd n2))"
    unfolding n2_def by (rule fraud_node_present)
  then obtain fi where fi: "fraud_investigation (snd n2) = Some fi" "fi \<noteq> []"
    by (cases "fraud_investigation (snd n2)") auto
  have f3: "fraud_investigation (snd n3) = Some fi"
    using fi by (simp add: n3_def compliance_node_frame)
  have r3: "risk_analysis (snd n3) = Some ra"
    by (simp add: n3_def n2_def st1_def compliance_node_frame fraud_node_frame)
  have l: "isl (finalize_node e (snd n3))"
    using assms by (simp add: g map_sum_def split: sum.splits)
  have "\<not> (dict_get fi ''recommendation'' (JStr ''REVIEW'') \<noteq> JStr ''APPROVE''
           \<and> dict_get fi ''recommendation'' (JStr ''REVIEW'') \<noteq> JStr ''DECLINE'')"
  proof
    assume "dict_get fi ''recommendation'' (JStr ''REVIEW'') \<noteq> JStr ''APPROVE''
           \<and> dict_get fi ''recommendation'' (JStr ''REVIEW'') \<noteq> JStr ''DECLINE''"
    with finalize_neither_approve_nor_decline
      [OF f3 fi(2) _ _ r3 risk_analysis_step_score(1)[OF escalated(1)], of e]
    obtain st' where "finalize_node e (snd n3) = Inr st'" by blast
    with l show False by simp
  qed
  then have "dict_get fi ''recommendation'' (JStr ''REVIEW'')
                \<in> set [JStr ''APPROVE'', JStr ''DECLINE'']"
    by auto
  with escalated fi l show ?thesis
    unfolding n3_def n2_def st1_def by blast
qed

lemma finalize_decline_text_confidence:
  assumes "fraud_investigation st = Some fi" and "fi \<noteq> []"
    and "dict_get fi ''recommendation'' (JStr ''REVIEW'') = JStr ''DECLINE''"
    and "dict_get fi ''confidence'' (JNum 0) = JStr c"
    and "risk_analysis st = Some ra" and "map_of ra ''risk_score'' = Some (JNum s)"
  shows "finalize_node e st =
           Inl (ValueError (''Unknown format code '' @ quoted ''%''
                            @ '' for object of type '' @ quoted ''str''))"
proof -
  from assms(6) have "ra \<noteq> []" by auto
  then show ?thesis
    using assms
    by (simp add: finalize_node_def build_decision_reason_def Let_def dict_get_def)
qed

lemma run_decline_text_confidence:
  assumes h: "risk_analysis_step e t = Inr (ra, msg)"
    and hi: "4/10 < fst (calculate_heuristic_risk t)"
    and fi: "fraud_investigation
               (snd (fraud_investigation_node e
                  ((initial_state e t)\<lparr>risk_analysis := Some ra, steps := [msg]\<rparr>))) = Some fi"
    and rec: "dict_get fi ''recommendation'' (JStr ''REVIEW'') = JStr ''DECLINE''"
    and conf: "dict_get fi ''confidence'' (JNum 0) = JStr c"
  shows "snd (investigate_async e t) =
           Inl (ValueError (''Unknown format code '' @ quoted ''%''
                            @ '' for object of type '' @ quoted ''str''))"
proof -
  define st1 where "st1 = (initial_state e t)\<lparr>risk_analysis := Some ra, steps := [msg]\<rparr>"
  define n2 where "n2 = fraud_investigation_node e st1"
  define n3 where "n3 = compliance_check_node e (snd n2)"
  have g: "snd (investigate_async e t) = map_sum id run_of (finalize_node e (snd n3))"
    by (simp add: escalated_run_result[OF h hi] st1_def n2_def n3_def)
  have f3: "fraud_investigation (snd n3) = Some fi"
    using fi by (simp add: n3_def n2_def st1_def compliance_node_frame)
  have ne: "fi \<noteq> []"
    using fraud_node_present[of e st1] fi by (simp add: st1_def)
  have r3: "risk_analysis (snd n3) = Some ra"
    by (simp add: n3_def n2_def st1_def compliance_node_frame fraud_node_frame)
  show ?thesis
    by (simp add: g finalize_decline_text_confidence
        [OF f3 ne rec conf r3 risk_analysis_step_score(1)[OF h]])
qed

lemma parse_decline:
  "parse_json_response (scripted r f c)
     ''{\"recommendation\": \"DECLINE\", \"confidence\": \"high\"}'' =
     Inr (JObj [(''recommendation'', JStr ''DECLINE''), (''confidence'', JStr ''high'')])"
  by (rule parse_sample) (simp add: json_table_def)

text \<open>
  C5 (as amended). Every run that \<open>runWorkflow\<close> returns has status \<open>completed\<close>. Its
  final decision is the recommendation the finding carries when there is a finding (the
  capability's own value, REVIEW when it gave none), APPROVE when there is an assessment
  but no finding (the score is then at most 0.40), and REVIEW when there is neither; so
  it is one of APPROVE, DECLINE, REVIEW whenever the finding's recommendation is. A run
  that does not return was escalated, and it is Finalizing that raises, on the state the
  run's own Investigating and Reviewing stages left, whose finding recommends APPROVE or
  DECLINE.
\<close>

theorem returned_run_status_and_decision:
  "(\<forall>r. snd (investigate_async e t) = Inr r \<longrightarrow>
      status r = ''completed''
      \<and> (if present (fraud_investigation r)
          then final_decision r =
                 dict_get (or_empty (fraud_investigation r)) ''recommendation'' (JStr ''REVIEW'')
          else if present (risk_analysis r)
          then final_decision r = JStr ''APPROVE''
               \<and> fst (calculate_heuristic_risk t) \<le> 4/10
          else final_decision r = JStr ''REVIEW''))
   \<and> (isl (snd (investigate_async e t)) \<longrightarrow>
        (\<exists>ra msg fi.
           risk_analysis_step e t = Inr (ra, msg)
           \<and> 4/10 < fst (calculate_heuristic_risk t)
           \<and> fraud_investigation
               (snd (fraud_investigation_node e
                  ((initial_state e t)\<lparr>risk_analysis := Some ra, steps := [msg]\<rparr>))) = Some fi
           \<and> dict_get fi ''recommendation'' (JStr ''REVIEW'')
                \<in> set [JStr ''APPROVE'', JStr ''DECLINE'']
           \<and> isl (finalize_node e
                (snd (compliance_check_node e
                   (snd (fraud_investigation_node e
                      ((initial_state e t)\<lparr>risk_analysis := Some ra, steps := [msg]\<rparr>))))))))"
  using returned_run[of e t] failed_run_finding[of e t] by blast

theorem returned_run_status_and_decision_witness:
  "\<not> isl (snd (investigate_async (scripted prose prose prose) tx_edge))
   \<and> map_sum id status (snd (investigate_async (scripted prose prose prose) tx_edge)) =
       Inr ''completed''
   \<and> map_sum id final_decision (snd (investigate_async (scripted prose prose prose) tx_edge)) =
       Inr (JStr ''APPROVE'')
   \<and> isl (snd (investigate_async
        (scripted prose (Inr ''{\"recommendation\": \"DECLINE\", \"confidence\": \"high\"}'') prose)
        tx_hot))
   \<and> 4/10 < fst (calculate_heuristic_risk tx_hot)"
proof -
  obtain ra msg where
    h: "risk_analysis_step (scripted prose prose prose) tx_edge = Inr (ra, msg)"
    using risk_step_prose by blast
  from risk_analysis_step_score(1)[OF h] have ne: "ra \<noteq> []" by auto
  from graph_skip[OF h] heuristic_tx_edge
  obtain r where r: "snd (investigate_async (scripted prose prose prose) tx_edge) = Inr r"
    and f: "fraud_investigation r = None" and a: "risk_analysis r = Some ra"
    by (auto simp: investigate_async_alt)
  from returned_run_status_and_decision[of "scripted prose prose prose" tx_edge] r f a ne
  have 1: "status r = ''completed''" and 2: "final_decision r = JStr ''APPROVE''"
    by auto
  define E where
    "E = scripted prose (Inr ''{\"recommendation\": \"DECLINE\", \"confidence\": \"high\"}'') prose"
  obtain ra2 msg2 where h2: "risk_analysis_step E tx_hot = Inr (ra2, msg2)"
    unfolding E_def using risk_step_prose by blast
  have hi: "4/10 < fst (calculate_heuristic_risk tx_hot)"
    by (simp add: heuristic_tx_hot)
  from fraud_node_parsed[OF _ risk_analysis_step_score[OF h2],
      of "(initial_state E tx_hot)\<lparr>risk_analysis := Some ra2, steps := [msg2]\<rparr>" E
         "''{\"recommendation\": \"DECLINE\", \"confidence\": \"high\"}''"
         "[(''recommendation'', JStr ''DECLINE''), (''confidence'', JStr ''high'')]"]
  obtain fi where
    fi: "fraud_investigation (snd (fraud_investigation_node E
           ((initial_state E tx_hot)\<lparr>risk_analysis := Some ra2, steps := [msg2]\<rparr>))) = Some fi"
    and rec: "map_of fi ''recommendation'' = Some (JStr ''DECLINE'')"
    and conf: "map_of fi ''confidence'' = Some (JStr ''high'')"
    by (auto simp: E_def parse_decline map_of_dict_set map_of_setdefault setdefault_def)
  from run_decline_text_confidence[OF h2 hi fi, of "''high''"] rec conf
  have 3: "isl (snd (investigate_async E tx_hot))"
    by (simp add: dict_get_def)
  from returned_run_status_and_decision[of E tx_hot] 3
  have "4/10 < fst (calculate_heuristic_risk tx_hot)" by blast
  with 1 2 3 r show ?thesis by (simp add: E_def)
qed

lemma parse_escalate:
  "parse_json_response (scripted r f c) ''{\"recommendation\": \"ESCALATE\"}'' =
     Inr (JObj [(''recommendation'', JStr ''ESCALATE'')])"
  by (rule parse_sample) (simp add: json_table_def)

theorem decision_outside_set_counterexample:
  "map_sum id status
     (snd (investigate_async
        (scripted prose (Inr ''{\"recommendation\": \"ESCALATE\"}'') prose) tx_hot)) =
     Inr ''completed''
   \<and> map_sum id final_decision
       (snd (investigate_async
          (scripted prose (Inr ''{\"recommendation\": \"ESCALATE\"}'') prose) tx_hot)) =
       Inr (JStr ''ESCALATE'')
   \<and> snd (investigate_async
        (scripted prose (Inr ''{\"recommendation\": \"DECLINE\", \"confidence\": \"high\"}'') prose)
        tx_hot) =
       Inl (ValueError (''Unknown format code '' @ quoted ''%''
                        @ '' for object of type '' @ quoted ''str''))"
proof -
  define E where "E = scripted prose (Inr ''{\"recommendation\": \"ESCALATE\"}'') prose"
  obtain ra msg where h: "risk_analysis_step E tx_hot = Inr (ra, msg)"
    unfolding E_def using risk_step_prose by blast
  have hi: "4/10 < fst (calculate_heuristic_risk tx_hot)"
    by (simp add: heuristic_tx_hot)
  from fraud_node_parsed[OF _ risk_analysis_step_score[OF h], 
      of "(initial_state E tx_hot)\<lparr>risk_analysis := Some ra, steps := [msg]\<rparr>" E
         "''{\"recommendation\": \"ESCALATE\"}''" "[(''recommendation'', JStr ''ESCALATE'')]"]
  obtain fi where
    fi: "fraud_investigation (snd (fraud_investigation_node E
           ((initial_state E tx_hot)\<lparr>risk_analysis := Some ra, steps := [msg]\<rparr>))) = Some fi"
    and rec: "map_of fi ''recommendation'' = Some (JStr ''ESCALATE'')"
    by (auto simp: E_def parse_escalate map_of_dict_set map_of_setdefault setdefault_def)
  from run_with_finding[OF h hi fi] rec
  have 1: "\<exists>r. snd (investigate_async E tx_hot) = Inr r \<and> status r = ''completed''
             \<and> final_decision r = JStr ''ESCALATE''"
    by (auto simp: dict_get_def)
  define D where
    "D = scripted prose (Inr ''{\"recommendation\": \"DECLINE\", \"confidence\": \"high\"}'') prose"
  obtain ra2 msg2 where h2: "risk_analysis_step D tx_hot = Inr (ra2, msg2)"
    unfolding D_def using risk_step_prose by blast
  from fraud_node_parsed[OF _ risk_analysis_step_score[OF h2],
      of "(initial_state D tx_hot)\<lparr>risk_analysis := Some ra2, steps := [msg2]\<rparr>" D
         "''{\"recommendation\": \"DECLINE\", \"confidence\": \"high\"}''"
         "[(''recommendation'', JStr ''DECLINE''), (''confidence'', JStr ''high'')]"]
  obtain fi2 where
    fi2: "fraud_investigation (snd (fraud_investigation_node D
           ((initial_state D tx_hot)\<lparr>risk_analysis := Some ra2, steps := [msg2]\<rparr>))) = Some fi2"
    and rec2: "map_of fi2 ''recommendation'' = Some (JStr ''DECLINE'')"
    and conf2: "map_of fi2 ''confidence'' = Some (JStr ''high'')"
    by (auto simp: D_def parse_decline map_of_dict_set map_of_setdefault setdefault_def)
  from run_decline_text_confidence[OF h2 hi fi2, of "''high''"] rec2 conf2
  have 2: "snd (investigate_async D tx_hot) =
             Inl (ValueError (''Unknown format code '' @ quoted ''%''
                              @ '' for object of type '' @ quoted ''str''))"
    by (simp add: dict_get_def)
  from 1 2 show ?thesis
    unfolding E_def D_def by auto
qed

subsection \<open>A failure of the Assessing stage after the assessor returned\<close>

lemma with_analyze_risk:
  "risk_analysis_step_with (analyze_risk e None) e t = risk_analysis_step e t"
  "risk_analysis_node_with (analyze_risk e None) e st = risk_analysis_node e st"
  "graph_invoke_with (analyze_risk e None) e st = graph_invoke e st"
  "investigate_async_with (analyze_risk e None) e t = investigate_async e t"
proof -
  show 1: "risk_analysis_step_with (analyze_risk e None) e t = risk_analysis_step e t" for t
    by (simp add: risk_analysis_step_with_def risk_analysis_step_def)
  show 2: "risk_analysis_node_with (analyze_risk e None) e st = risk_analysis_node e st" for st
    by (simp add: risk_analysis_node_with_def risk_analysis_node_def 1)
  show 3: "graph_invoke_with (analyze_risk e None) e st = graph_invoke e st" for st
    by (simp add: graph_invoke_with_def graph_invoke_def 2)
  show "investigate_async_with (analyze_risk e None) e t = investigate_async e t"
    by (simp add: investigate_async_with_def investigate_async_def 3)
qed

lemma step_fails_only_in_assessor:
  assumes "risk_analysis_step e t = Inl err"
  shows "analyze_risk e None t = Inl err"
proof (cases "analyze_risk e None t")
  case (Inl x)
  with assms risk_analysis_step_Inl[OF Inl] show ?thesis by simp
next
  case (Inr ra0)
  from risk_analysis_step_Inr[OF Inr] assms show ?thesis by auto
qed








subsection \<open>Events and the step log\<close>








lemma complete_not_stage: "(''investigation_complete'', x) \<notin> set (stage_events a ok)"
  by (simp add: stage_events_def)




subsection \<open>The parsing step\<close>























end
